theory Spec2Isabelle
  imports Main "HOL-Library.Word"
begin

unbundle bit_operations_syntax

section \<open>Machine integers and raw memory\<close>

text \<open>
  The firmware works on packed little-endian structs that are copied to and from byte
  buffers with \<^verbatim>\<open>memcpy\<close>. Bytes are \<open>8 word\<close>; a \<^verbatim>\<open>float\<close> field is kept as
  its 32-bit pattern, which is all that \<^verbatim>\<open>memcpy\<close> moves. A buffer \<^verbatim>\<open>(buf, buf_len)\<close>
  is a byte list whose length is \<^verbatim>\<open>buf_len\<close>.
\<close>

type_synonym u8 = "8 word"
type_synonym u16 = "16 word"
type_synonym u32 = "32 word"

definition u16_le :: "u16 \<Rightarrow> u8 list" where
  "u16_le w = [ucast w, ucast (drop_bit 8 w)]"

definition rd_u16 :: "u8 list \<Rightarrow> nat \<Rightarrow> u16" where
  "rd_u16 bs off = ucast (bs ! off) OR push_bit 8 (ucast (bs ! (off + 1)))"

definition u32_le :: "u32 \<Rightarrow> u8 list" where
  "u32_le w = [ucast w, ucast (drop_bit 8 w), ucast (drop_bit 16 w), ucast (drop_bit 24 w)]"

definition rd_u32 :: "u8 list \<Rightarrow> nat \<Rightarrow> u32" where
  "rd_u32 bs off =
     ucast (bs ! off) OR push_bit 8 (ucast (bs ! (off + 1)))
       OR push_bit 16 (ucast (bs ! (off + 2))) OR push_bit 24 (ucast (bs ! (off + 3)))"

text \<open>\<^verbatim>\<open>memcpy(buf + off, src, n)\<close> with \<open>n = length src\<close>, inside the buffer.\<close>

definition write_at :: "u8 list \<Rightarrow> nat \<Rightarrow> u8 list \<Rightarrow> u8 list" where
  "write_at buf off src = take off buf @ src @ drop (off + length src) buf"

section \<open>CRC-16/CCITT-FALSE (packets.cpp, lss\_crc16)\<close>

text \<open>One turn of the inner loop: test the top bit, shift left, conditionally xor the polynomial.\<close>

definition crc16_bit :: "u16 \<Rightarrow> u16" where
  "crc16_bit crc =
     (if crc AND 0x8000 \<noteq> 0 then push_bit 1 crc XOR 0x1021 else push_bit 1 crc)"

fun crc16_bits :: "nat \<Rightarrow> u16 \<Rightarrow> u16" where
  "crc16_bits 0 crc = crc"
| "crc16_bits (Suc b) crc = crc16_bits b (crc16_bit crc)"

text \<open>One turn of the outer loop: xor the byte into the high half, then eight bit steps.\<close>

definition crc16_byte :: "u16 \<Rightarrow> u8 \<Rightarrow> u16" where
  "crc16_byte crc d = crc16_bits 8 (crc XOR push_bit 8 (ucast d))"

definition lss_crc16 :: "u8 list \<Rightarrow> u16" where
  "lss_crc16 data = foldl crc16_byte 0xFFFF data"

section \<open>Packet structs (packets.h)\<close>

definition SYNC_LEGACY :: u16 where "SYNC_LEGACY = 0x1234"
definition SYNC_MULTI_SENSOR :: u16 where "SYNC_MULTI_SENSOR = 0xABCD"
definition SYNC_COMMAND :: u16 where "SYNC_COMMAND = 0xCDEF"

definition MAX_SENSOR_VALUES :: nat where "MAX_SENSOR_VALUES = 16"

definition CMD_PING :: u8 where "CMD_PING = 0x00"
definition CMD_GET_CONFIG :: u8 where "CMD_GET_CONFIG = 0x01"
definition CMD_SET_INTERVAL :: u8 where "CMD_SET_INTERVAL = 0x02"
definition CMD_SET_LOCATION :: u8 where "CMD_SET_LOCATION = 0x03"
definition CMD_SET_TEMP_THRESH :: u8 where "CMD_SET_TEMP_THRESH = 0x04"
definition CMD_SET_BATTERY_THRESH :: u8 where "CMD_SET_BATTERY_THRESH = 0x05"
definition CMD_SET_MESH_CONFIG :: u8 where "CMD_SET_MESH_CONFIG = 0x06"
definition CMD_RESTART :: u8 where "CMD_RESTART = 0x07"
definition CMD_FACTORY_RESET :: u8 where "CMD_FACTORY_RESET = 0x08"
definition CMD_SET_LORA_PARAMS :: u8 where "CMD_SET_LORA_PARAMS = 0x09"
definition CMD_TIME_SYNC :: u8 where "CMD_TIME_SYNC = 0x0A"
definition CMD_SENSOR_ANNOUNCE :: u8 where "CMD_SENSOR_ANNOUNCE = 0x0B"
definition CMD_BASE_WELCOME :: u8 where "CMD_BASE_WELCOME = 0x0C"
definition CMD_ACK :: u8 where "CMD_ACK = 0xA0"
definition CMD_NACK :: u8 where "CMD_NACK = 0xA1"

text \<open>\<^verbatim>\<open>SensorValuePacket\<close> (packed, 5 bytes): a type tag and a float.\<close>

record SensorValuePacket =
  sv_type :: u8
  sv_value :: u32

text \<open>
  \<^verbatim>\<open>MultiSensorHeader\<close> (packed, 60 bytes). \<open>h_location\<close> is \<^verbatim>\<open>char[32]\<close> and
  \<open>h_zone\<close> is \<^verbatim>\<open>char[16]\<close>; the array sizes are the well-formedness condition
  \<open>wf_header\<close>.
\<close>

record MultiSensorHeader =
  h_syncWord :: u16
  h_networkId :: u16
  h_packetType :: u8
  h_sensorId :: u8
  h_valueCount :: u8
  h_batteryPercent :: u8
  h_powerState :: u8
  h_lastCommandSeq :: u8
  h_ackStatus :: u8
  h_pad :: u8
  h_location :: "u8 list"
  h_zone :: "u8 list"

text \<open>\<^verbatim>\<open>MultiSensorPacket\<close>: header, \<^verbatim>\<open>values[MAX_SENSOR_VALUES]\<close>, checksum.\<close>

record MultiSensorPacket =
  p_header :: MultiSensorHeader
  p_values :: "SensorValuePacket list"
  p_checksum :: u16

text \<open>
  \<^verbatim>\<open>CommandPacket\<close> (packed); \<open>c_data\<close> is \<^verbatim>\<open>uint8_t[192]\<close>. The packed
  fields add up to 2 + 5 + 192 + 2 = 201 bytes.
\<close>

record CommandPacket =
  c_syncWord :: u16
  c_commandType :: u8
  c_targetSensorId :: u8
  c_sequenceNumber :: u8
  c_dataLength :: u8
  c_pad :: u8
  c_data :: "u8 list"
  c_checksum :: u16

text \<open>
  \<^verbatim>\<open>AckPacket\<close> (packed); \<open>a_data\<close> is \<^verbatim>\<open>uint8_t[192]\<close>. The packed fields
  add up to 2 + 6 + 192 + 2 = 202 bytes.
\<close>

record AckPacket =
  a_syncWord :: u16
  a_commandType :: u8
  a_sensorId :: u8
  a_sequenceNumber :: u8
  a_statusCode :: u8
  a_dataLength :: u8
  a_pad :: u8
  a_data :: "u8 list"
  a_checksum :: u16

definition sizeof_SensorValuePacket :: nat where "sizeof_SensorValuePacket = 5"
definition sizeof_MultiSensorHeader :: nat where "sizeof_MultiSensorHeader = 60"
definition sizeof_CommandPacket :: nat where "sizeof_CommandPacket = 201"
definition sizeof_AckPacket :: nat where "sizeof_AckPacket = 202"
definition sizeof_uint16 :: nat where "sizeof_uint16 = 2"

definition wf_header :: "MultiSensorHeader \<Rightarrow> bool" where
  "wf_header h = (length (h_location h) = 32 \<and> length (h_zone h) = 16)"

definition wf_packet :: "MultiSensorPacket \<Rightarrow> bool" where
  "wf_packet p = (wf_header (p_header p) \<and> length (p_values p) = MAX_SENSOR_VALUES)"

definition wf_command :: "CommandPacket \<Rightarrow> bool" where
  "wf_command p = (length (c_data p) = 192)"

definition wf_ack :: "AckPacket \<Rightarrow> bool" where
  "wf_ack p = (length (a_data p) = 192)"

subsection \<open>Object representations: what memcpy of a struct moves\<close>

definition sv_bytes :: "SensorValuePacket \<Rightarrow> u8 list" where
  "sv_bytes v = sv_type v # u32_le (sv_value v)"

definition sv_of_bytes :: "u8 list \<Rightarrow> SensorValuePacket" where
  "sv_of_bytes bs = \<lparr> sv_type = bs ! 0, sv_value = rd_u32 bs 1 \<rparr>"

definition header_bytes :: "MultiSensorHeader \<Rightarrow> u8 list" where
  "header_bytes h =
     u16_le (h_syncWord h) @ u16_le (h_networkId h) @
     [h_packetType h, h_sensorId h, h_valueCount h, h_batteryPercent h,
      h_powerState h, h_lastCommandSeq h, h_ackStatus h, h_pad h] @
     h_location h @ h_zone h"

definition header_of_bytes :: "u8 list \<Rightarrow> MultiSensorHeader" where
  "header_of_bytes bs =
     \<lparr> h_syncWord = rd_u16 bs 0, h_networkId = rd_u16 bs 2,
       h_packetType = bs ! 4, h_sensorId = bs ! 5, h_valueCount = bs ! 6,
       h_batteryPercent = bs ! 7, h_powerState = bs ! 8, h_lastCommandSeq = bs ! 9,
       h_ackStatus = bs ! 10, h_pad = bs ! 11,
       h_location = take 32 (drop 12 bs), h_zone = take 16 (drop 44 bs) \<rparr>"

definition command_bytes :: "CommandPacket \<Rightarrow> u8 list" where
  "command_bytes p =
     u16_le (c_syncWord p) @
     [c_commandType p, c_targetSensorId p, c_sequenceNumber p, c_dataLength p, c_pad p] @
     c_data p @ u16_le (c_checksum p)"

definition command_of_bytes :: "u8 list \<Rightarrow> CommandPacket" where
  "command_of_bytes bs =
     \<lparr> c_syncWord = rd_u16 bs 0, c_commandType = bs ! 2, c_targetSensorId = bs ! 3,
       c_sequenceNumber = bs ! 4, c_dataLength = bs ! 5, c_pad = bs ! 6,
       c_data = take 192 (drop 7 bs), c_checksum = rd_u16 bs 199 \<rparr>"

definition ack_bytes :: "AckPacket \<Rightarrow> u8 list" where
  "ack_bytes p =
     u16_le (a_syncWord p) @
     [a_commandType p, a_sensorId p, a_sequenceNumber p, a_statusCode p,
      a_dataLength p, a_pad p] @
     a_data p @ u16_le (a_checksum p)"

definition ack_of_bytes :: "u8 list \<Rightarrow> AckPacket" where
  "ack_of_bytes bs =
     \<lparr> a_syncWord = rd_u16 bs 0, a_commandType = bs ! 2, a_sensorId = bs ! 3,
       a_sequenceNumber = bs ! 4, a_statusCode = bs ! 5, a_dataLength = bs ! 6,
       a_pad = bs ! 7, a_data = take 192 (drop 8 bs), a_checksum = rd_u16 bs 200 \<rparr>"

section \<open>Codec (packets.cpp)\<close>

subsection \<open>Multi-sensor packet\<close>

definition lss_multi_sensor_size :: "MultiSensorPacket \<Rightarrow> nat" where
  "lss_multi_sensor_size pkt =
     sizeof_MultiSensorHeader
       + unat (h_valueCount (p_header pkt)) * sizeof_SensorValuePacket
       + sizeof_uint16"

text \<open>
  The memory that starts at \<^verbatim>\<open>pkt->values\<close>: the sixteen entries, then the checksum
  field of the same object, then whatever follows the object. \<open>past i\<close> is the byte
  \<open>i\<close> places after the end of the packet object; the copy in the serialiser reaches it
  only when \<open>valueCount\<close> is above \<open>MAX_SENSOR_VALUES\<close>.
\<close>

definition values_memory :: "(nat \<Rightarrow> u8) \<Rightarrow> MultiSensorPacket \<Rightarrow> nat \<Rightarrow> u8 list" where
  "values_memory past pkt n =
     take n (concat (map sv_bytes (p_values pkt)) @ u16_le (p_checksum pkt) @ map past [0..<n])"

definition lss_serialize_multi_sensor ::
    "(nat \<Rightarrow> u8) \<Rightarrow> MultiSensorPacket \<Rightarrow> u8 list \<Rightarrow> nat \<times> u8 list" where
  "lss_serialize_multi_sensor past pkt buf =
     (let needed = lss_multi_sensor_size pkt in
      if length buf < needed then (0, buf)
      else
        let buf1 = write_at buf 0 (header_bytes (p_header pkt));
            offset1 = sizeof_MultiSensorHeader;
            vals_sz = unat (h_valueCount (p_header pkt)) * sizeof_SensorValuePacket;
            buf2 = write_at buf1 offset1 (values_memory past pkt vals_sz);
            offset2 = offset1 + vals_sz;
            crc = lss_crc16 (take offset2 buf2);
            buf3 = write_at buf2 offset2 (u16_le crc);
            offset3 = offset2 + sizeof_uint16
        in (offset3, buf3))"

text \<open>The \<open>n\<close> value entries that start at byte \<open>off\<close> of a buffer.\<close>

definition values_of_bytes :: "u8 list \<Rightarrow> nat \<Rightarrow> nat \<Rightarrow> SensorValuePacket list" where
  "values_of_bytes buf off n =
     map (\<lambda>i. sv_of_bytes (take sizeof_SensorValuePacket (drop (off + i * sizeof_SensorValuePacket) buf)))
         [0..<n]"

text \<open>
  The result pairs the returned flag with the caller's \<^verbatim>\<open>out\<close> object as the call
  leaves it: the header is copied in before the sync word is looked at.
\<close>

definition lss_deserialize_multi_sensor ::
    "u8 list \<Rightarrow> MultiSensorPacket \<Rightarrow> bool \<times> MultiSensorPacket" where
  "lss_deserialize_multi_sensor buf out =
     (if length buf < sizeof_MultiSensorHeader + sizeof_uint16 then (False, out)
      else
        let out1 = out\<lparr>p_header := header_of_bytes (take sizeof_MultiSensorHeader buf)\<rparr>;
            vc = unat (h_valueCount (p_header out1))
        in
        if h_syncWord (p_header out1) \<noteq> SYNC_MULTI_SENSOR then (False, out1)
        else if vc > MAX_SENSOR_VALUES then (False, out1)
        else
          let payload_end = sizeof_MultiSensorHeader + vc * sizeof_SensorValuePacket in
          if length buf < payload_end + sizeof_uint16 then (False, out1)
          else
            let received_crc = rd_u16 buf payload_end in
            if lss_crc16 (take payload_end buf) \<noteq> received_crc then (False, out1)
            else
              (True,
               out1\<lparr>p_values := values_of_bytes buf sizeof_MultiSensorHeader vc
                                   @ drop vc (p_values out1),
                     p_checksum := received_crc\<rparr>))"

subsection \<open>Command packet\<close>

definition lss_serialize_command :: "CommandPacket \<Rightarrow> u8 list \<Rightarrow> nat \<times> u8 list" where
  "lss_serialize_command pkt buf =
     (if length buf < sizeof_CommandPacket then (0, buf)
      else
        let buf1 = write_at buf 0 (command_bytes pkt);
            payload_end = sizeof_CommandPacket - sizeof_uint16;
            crc = lss_crc16 (take payload_end buf1);
            buf2 = write_at buf1 payload_end (u16_le crc)
        in (sizeof_CommandPacket, buf2))"

definition lss_deserialize_command ::
    "u8 list \<Rightarrow> CommandPacket \<Rightarrow> bool \<times> CommandPacket" where
  "lss_deserialize_command buf out =
     (if length buf < sizeof_CommandPacket then (False, out)
      else
        let out1 = command_of_bytes (take sizeof_CommandPacket buf) in
        if c_syncWord out1 \<noteq> SYNC_COMMAND then (False, out1)
        else
          let payload_end = sizeof_CommandPacket - sizeof_uint16;
              expected = lss_crc16 (take payload_end buf)
          in if c_checksum out1 \<noteq> expected then (False, out1) else (True, out1))"

subsection \<open>ACK packet\<close>

definition lss_serialize_ack :: "AckPacket \<Rightarrow> u8 list \<Rightarrow> nat \<times> u8 list" where
  "lss_serialize_ack pkt buf =
     (if length buf < sizeof_AckPacket then (0, buf)
      else
        let buf1 = write_at buf 0 (ack_bytes pkt);
            payload_end = sizeof_AckPacket - sizeof_uint16;
            crc = lss_crc16 (take payload_end buf1);
            buf2 = write_at buf1 payload_end (u16_le crc)
        in (sizeof_AckPacket, buf2))"

definition lss_build_ack :: "u8 \<Rightarrow> u8 \<Rightarrow> u8 \<Rightarrow> u8 \<Rightarrow> u8 list \<Rightarrow> nat \<times> u8 list" where
  "lss_build_ack ack_type sensor_id seq status_code buf =
     lss_serialize_ack
       \<lparr> a_syncWord = SYNC_COMMAND, a_commandType = ack_type, a_sensorId = sensor_id,
         a_sequenceNumber = seq, a_statusCode = status_code, a_dataLength = 0,
         a_pad = 0, a_data = replicate 192 0, a_checksum = 0 \<rparr>
       buf"

text \<open>
  Modelled from the spec: the acknowledgement parser. The firmware sources hold no
  deserialiser for \<^verbatim>\<open>AckPacket\<close> (acknowledgements are parsed by the base station,
  whose parser is not among the sources). The spec gives an acknowledgement frame the
  command frame's discipline: fixed total size, sync word \<open>0xCDEF\<close>, and a trailing u16
  that must equal the CRC of all bytes before it.
\<close>

definition deserialize_ack :: "u8 list \<Rightarrow> AckPacket option" where
  "deserialize_ack buf =
     (if length buf < sizeof_AckPacket then None
      else
        let p = ack_of_bytes (take sizeof_AckPacket buf) in
        if a_syncWord p \<noteq> SYNC_COMMAND then None
        else if a_checksum p \<noteq> lss_crc16 (take (sizeof_AckPacket - sizeof_uint16) buf) then None
        else Some p)"

text \<open>The trailing two bytes of a frame hold the CRC of everything before them.\<close>

definition crc_verifies :: "u8 list \<Rightarrow> bool" where
  "crc_verifies frame =
     (2 \<le> length frame \<and>
      rd_u16 frame (length frame - 2) = lss_crc16 (take (length frame - 2) frame))"

section \<open>Mesh router (mesh.h, mesh.cpp)\<close>

definition MESH_DATA :: u8 where "MESH_DATA = 0"
definition MESH_ROUTE_REQUEST :: u8 where "MESH_ROUTE_REQUEST = 1"
definition MESH_ROUTE_REPLY :: u8 where "MESH_ROUTE_REPLY = 2"
definition MESH_ROUTE_ERROR :: u8 where "MESH_ROUTE_ERROR = 3"
definition MESH_NEIGHBOR_BEACON :: u8 where "MESH_NEIGHBOR_BEACON = 4"

definition MESH_MAX_ROUTES :: nat where "MESH_MAX_ROUTES = 20"
definition MESH_MAX_HOPS :: u8 where "MESH_MAX_HOPS = 5"
definition MESH_ROUTE_TIMEOUT :: u32 where "MESH_ROUTE_TIMEOUT = 600000"
definition MESH_BEACON_INTERVAL :: u32 where "MESH_BEACON_INTERVAL = 30000"

text \<open>\<^verbatim>\<open>MeshHeader\<close> (packed, 9 bytes).\<close>

record MeshHeader =
  m_packetType :: u8
  m_sourceId :: u8
  m_destId :: u8
  m_nextHop :: u8
  m_prevHop :: u8
  m_hopCount :: u8
  m_ttl :: u8
  m_sequenceNum :: u16

definition sizeof_MeshHeader :: nat where "sizeof_MeshHeader = 9"

definition mesh_header_bytes :: "MeshHeader \<Rightarrow> u8 list" where
  "mesh_header_bytes h =
     [m_packetType h, m_sourceId h, m_destId h, m_nextHop h, m_prevHop h,
      m_hopCount h, m_ttl h] @ u16_le (m_sequenceNum h)"

definition mesh_header_of_bytes :: "u8 list \<Rightarrow> MeshHeader" where
  "mesh_header_of_bytes bs =
     \<lparr> m_packetType = bs ! 0, m_sourceId = bs ! 1, m_destId = bs ! 2, m_nextHop = bs ! 3,
       m_prevHop = bs ! 4, m_hopCount = bs ! 5, m_ttl = bs ! 6,
       m_sequenceNum = rd_u16 bs 7 \<rparr>"

record RouteEntry =
  r_destId :: u8
  r_nextHop :: u8
  r_hopCount :: u8
  r_lastUpdated :: u32
  r_valid :: bool

text \<open>
  The router object. \<open>routes\<close> is \<^verbatim>\<open>RouteEntry _routes[MESH_MAX_ROUTES]\<close>; the
  array size is the well-formedness condition \<open>wf_router\<close>. Every operation that reads
  \<^verbatim>\<open>millis()\<close> takes the clock value as the argument \<open>now\<close>.
\<close>

record MeshRouter =
  node_id :: u8
  enabled :: bool
  routes :: "RouteEntry list"
  seq :: u16
  last_beacon :: u32

definition wf_router :: "MeshRouter \<Rightarrow> bool" where
  "wf_router r = (length (routes r) = MESH_MAX_ROUTES)"

text \<open>The constructor: \<^verbatim>\<open>memset(_routes, 0, sizeof(_routes))\<close>.\<close>

definition new_MeshRouter :: "u8 \<Rightarrow> bool \<Rightarrow> MeshRouter" where
  "new_MeshRouter nid en =
     \<lparr> node_id = nid, enabled = en,
       routes = replicate MESH_MAX_ROUTES
         \<lparr> r_destId = 0, r_nextHop = 0, r_hopCount = 0, r_lastUpdated = 0, r_valid = False \<rparr>,
       seq = 0, last_beacon = 0 \<rparr>"

text \<open>\<^verbatim>\<open>_find_route\<close>: the index of the first valid entry for \<open>dest_id\<close>, or -1.\<close>

fun find_route_from :: "RouteEntry list \<Rightarrow> u8 \<Rightarrow> nat \<Rightarrow> int" where
  "find_route_from [] dest_id i = -1"
| "find_route_from (e # es) dest_id i =
     (if r_valid e \<and> r_destId e = dest_id then int i else find_route_from es dest_id (i + 1))"

definition find_route :: "MeshRouter \<Rightarrow> u8 \<Rightarrow> int" where
  "find_route r dest_id = find_route_from (routes r) dest_id 0"

text \<open>
  \<^verbatim>\<open>_alloc_slot\<close>: the first invalid slot; with none, the slot with the smallest
  timestamp (the first of them: the comparison is strict).
\<close>

fun first_invalid_from :: "RouteEntry list \<Rightarrow> nat \<Rightarrow> nat option" where
  "first_invalid_from [] i = None"
| "first_invalid_from (e # es) i =
     (if \<not> r_valid e then Some i else first_invalid_from es (i + 1))"

fun oldest_from :: "RouteEntry list \<Rightarrow> nat \<Rightarrow> nat \<Rightarrow> u32 \<Rightarrow> nat" where
  "oldest_from [] i oldest oldest_ts = oldest"
| "oldest_from (e # es) i oldest oldest_ts =
     (if r_lastUpdated e < oldest_ts then oldest_from es (i + 1) i (r_lastUpdated e)
      else oldest_from es (i + 1) oldest oldest_ts)"

definition alloc_slot :: "MeshRouter \<Rightarrow> nat" where
  "alloc_slot r =
     (case first_invalid_from (routes r) 0 of
        Some i \<Rightarrow> i
      | None \<Rightarrow> oldest_from (drop 1 (routes r)) 1 0 (r_lastUpdated (routes r ! 0)))"

definition update_route :: "MeshRouter \<Rightarrow> u32 \<Rightarrow> u8 \<Rightarrow> u8 \<Rightarrow> u8 \<Rightarrow> MeshRouter" where
  "update_route r now dest_id next_hop hop_count =
     (let idx0 = find_route r dest_id;
          idx = (if idx0 < 0 then alloc_slot r else nat idx0)
      in r\<lparr>routes := (routes r)[idx :=
             \<lparr> r_destId = dest_id, r_nextHop = next_hop, r_hopCount = hop_count,
               r_lastUpdated = now, r_valid = True \<rparr>]\<rparr>)"

definition next_hop_for :: "MeshRouter \<Rightarrow> u8 \<Rightarrow> u8" where
  "next_hop_for r dest_id =
     (let idx = find_route r dest_id in
      if idx \<ge> 0 \<and> r_valid (routes r ! nat idx) then r_nextHop (routes r ! nat idx)
      else 255)"

definition evict_stale_routes :: "MeshRouter \<Rightarrow> u32 \<Rightarrow> MeshRouter" where
  "evict_stale_routes r now =
     r\<lparr>routes :=
         map (\<lambda>e. if r_valid e \<and> now - r_lastUpdated e > MESH_ROUTE_TIMEOUT
                   then e\<lparr>r_valid := False\<rparr> else e)
             (routes r)\<rparr>"

definition next_seq :: "MeshRouter \<Rightarrow> u16 \<times> MeshRouter" where
  "next_seq r = (seq r, r\<lparr>seq := seq r + 1\<rparr>)"

text \<open>
  \<^verbatim>\<open>receive\<close> returns the flag, the payload handed to the upper layer through
  \<^verbatim>\<open>out_payload\<close>/\<^verbatim>\<open>out_len\<close> (\<open>None\<close> when the out-parameters are not written), and
  the router as the call leaves it.
\<close>

definition receive :: "MeshRouter \<Rightarrow> u32 \<Rightarrow> u8 list \<Rightarrow> bool \<times> u8 list option \<times> MeshRouter" where
  "receive r now raw =
     (if length raw < sizeof_MeshHeader then (False, None, r)
      else
        let hdr = mesh_header_of_bytes (take sizeof_MeshHeader raw) in
        if m_hopCount hdr \<ge> MESH_MAX_HOPS then (False, None, r)
        else
          let r1 = (if m_prevHop hdr \<noteq> 0 \<and> m_prevHop hdr \<noteq> 255
                    then update_route r now (m_sourceId hdr) (m_prevHop hdr) (m_hopCount hdr)
                    else r)
          in
          if m_packetType hdr = MESH_NEIGHBOR_BEACON
          then (False, None, update_route r1 now (m_sourceId hdr) (m_sourceId hdr) 1)
          else if m_packetType hdr = MESH_ROUTE_REQUEST
          then (if m_destId hdr = node_id r1
                then (True, Some (drop sizeof_MeshHeader raw), r1)
                else (False, None, r1))
          else if m_destId hdr = node_id r1 \<or> m_destId hdr = 255
          then (True, Some (drop sizeof_MeshHeader raw), r1)
          else (False, None, r1))"

definition wrap :: "MeshRouter \<Rightarrow> u8 \<Rightarrow> u8 list \<Rightarrow> u8 list \<Rightarrow> nat \<times> u8 list \<times> MeshRouter" where
  "wrap r dest_id payload out_buf =
     (let total = sizeof_MeshHeader + length payload in
      if length out_buf < total then (0, out_buf, r)
      else
        let nh = (if dest_id = 255 then 255 else next_hop_for r dest_id);
            (sq, r1) = next_seq r;
            hdr = \<lparr> m_packetType = MESH_DATA, m_sourceId = node_id r, m_destId = dest_id,
                    m_nextHop = nh, m_prevHop = node_id r, m_hopCount = 0,
                    m_ttl = MESH_MAX_HOPS, m_sequenceNum = sq \<rparr>;
            buf1 = write_at out_buf 0 (mesh_header_bytes hdr);
            buf2 = write_at buf1 sizeof_MeshHeader payload
        in (total, buf2, r1))"

text \<open>\<^verbatim>\<open>tick\<close>: evict, then the beacon when one is due.\<close>

definition tick :: "MeshRouter \<Rightarrow> u32 \<Rightarrow> u8 list \<Rightarrow> nat \<times> u8 list \<times> MeshRouter" where
  "tick r now out_buf =
     (let r1 = evict_stale_routes r now in
      if now - last_beacon r1 < MESH_BEACON_INTERVAL then (0, out_buf, r1)
      else
        let r2 = r1\<lparr>last_beacon := now\<rparr> in
        if length out_buf < sizeof_MeshHeader then (0, out_buf, r2)
        else
          let (sq, r3) = next_seq r2;
              hdr = \<lparr> m_packetType = MESH_NEIGHBOR_BEACON, m_sourceId = node_id r2,
                      m_destId = 255, m_nextHop = 255, m_prevHop = node_id r2,
                      m_hopCount = 0, m_ttl = 1, m_sequenceNum = sq \<rparr>
          in (sizeof_MeshHeader, write_at out_buf 0 (mesh_header_bytes hdr), r3))"

section \<open>Node configuration store (node\_config.h, node\_config.cpp)\<close>

definition LOCATION_MAXLEN :: nat where "LOCATION_MAXLEN = 32"
definition ZONE_MAXLEN :: nat where "ZONE_MAXLEN = 16"

text \<open>
  \<^verbatim>\<open>NodeConfig\<close>. \<open>location\<close> is \<^verbatim>\<open>char[LOCATION_MAXLEN]\<close>, \<open>zone\<close> is
  \<^verbatim>\<open>char[ZONE_MAXLEN]\<close>; the float fields hold bit patterns; \<open>tzOffsetMinutes\<close> is a
  signed 32-bit value.
\<close>

record NodeConfig =
  nodeId :: u8
  networkId :: u16
  telemetryIntervalMs :: u32
  location :: "u8 list"
  zone :: "u8 list"
  tempThreshHigh :: u32
  tempThreshLow :: u32
  batteryThreshLow :: u32
  batteryThreshCritical :: u32
  loraFrequency :: u32
  loraSpreadingFactor :: u8
  loraTxPower :: u8
  meshEnabled :: bool
  tzOffsetMinutes :: "32 word"
  lastTimeSync :: u32

definition wf_config :: "NodeConfig \<Rightarrow> bool" where
  "wf_config c = (length (location c) = LOCATION_MAXLEN \<and> length (zone c) = ZONE_MAXLEN)"

text \<open>The values the \<^verbatim>\<open>Preferences\<close> key/value store holds under a key.\<close>

datatype nvs_value =
    NvsUChar u8
  | NvsUShort u16
  | NvsULong u32
  | NvsString "u8 list"
  | NvsFloat u32
  | NvsBool bool
  | NvsLong "32 word"

text \<open>
  \<^verbatim>\<open>NodeConfigStore\<close>: the in-memory \<^verbatim>\<open>_cfg\<close>, with the flash namespace
  \<^verbatim>\<open>lss_node\<close> it is saved to. \<open>nvs_open_ok\<close> says whether
  \<^verbatim>\<open>prefs.begin(NVS_NAMESPACE, false)\<close> succeeds.
\<close>

record NodeConfigStore =
  cfg :: NodeConfig
  nvs :: "string \<rightharpoonup> nvs_value"
  nvs_open_ok :: bool

text \<open>C strings: the bytes before the first NUL.\<close>

definition c_str :: "u8 list \<Rightarrow> u8 list" where
  "c_str bs = takeWhile (\<lambda>b. b \<noteq> 0) bs"

text \<open>\<^verbatim>\<open>strnlen(s, maxlen)\<close>.\<close>

definition c_strnlen :: "u8 list \<Rightarrow> nat \<Rightarrow> nat" where
  "c_strnlen s maxlen = length (c_str (take maxlen s))"

text \<open>
  The \<open>n\<close> bytes that \<^verbatim>\<open>strncpy(dst, src, n)\<close> writes to \<^verbatim>\<open>dst\<close>: the string, cut
  at \<open>n\<close> bytes, then NUL padding up to \<open>n\<close>.
\<close>

definition c_strncpy :: "u8 list \<Rightarrow> nat \<Rightarrow> u8 list" where
  "c_strncpy src n = c_str (take n src) @ replicate (n - length (c_str (take n src))) 0"

definition fill_defaults :: "NodeConfig \<Rightarrow> NodeConfig" where
  "fill_defaults c =
     c\<lparr> nodeId := 1, networkId := 1, telemetryIntervalMs := 30000,
        location := (write_at (location c) 0
                       (c_strncpy [0x55, 0x6E, 0x6B, 0x6E, 0x6F, 0x77, 0x6E, 0] (LOCATION_MAXLEN - 1)))
                    [LOCATION_MAXLEN - 1 := 0],
        zone := (write_at (zone c) 0
                   (c_strncpy [0x64, 0x65, 0x66, 0x61, 0x75, 0x6C, 0x74, 0] (ZONE_MAXLEN - 1)))
                [ZONE_MAXLEN - 1 := 0],
        tempThreshHigh := 0x42480000, tempThreshLow := 0xC1A00000,
        batteryThreshLow := 0x41A00000, batteryThreshCritical := 0x41200000,
        loraFrequency := 0x4464C000, loraSpreadingFactor := 10, loraTxPower := 20,
        meshEnabled := True, tzOffsetMinutes := 0, lastTimeSync := 0 \<rparr>"

definition save :: "NodeConfigStore \<Rightarrow> bool \<times> NodeConfigStore" where
  "save st =
     (if \<not> nvs_open_ok st then (False, st)
      else
        let c = cfg st in
        (True,
         st\<lparr>nvs := (nvs st)
              (''node_id'' \<mapsto> NvsUChar (nodeId c),
               ''network_id'' \<mapsto> NvsUShort (networkId c),
               ''tx_interval'' \<mapsto> NvsULong (telemetryIntervalMs c),
               ''location'' \<mapsto> NvsString (c_str (location c)),
               ''zone'' \<mapsto> NvsString (c_str (zone c)),
               ''temp_hi'' \<mapsto> NvsFloat (tempThreshHigh c),
               ''temp_lo'' \<mapsto> NvsFloat (tempThreshLow c),
               ''batt_lo'' \<mapsto> NvsFloat (batteryThreshLow c),
               ''batt_crit'' \<mapsto> NvsFloat (batteryThreshCritical c),
               ''lora_freq'' \<mapsto> NvsFloat (loraFrequency c),
               ''lora_sf'' \<mapsto> NvsUChar (loraSpreadingFactor c),
               ''lora_txpwr'' \<mapsto> NvsUChar (loraTxPower c),
               ''mesh_en'' \<mapsto> NvsBool (meshEnabled c),
               ''tz_offset'' \<mapsto> NvsLong (tzOffsetMinutes c),
               ''time_sync'' \<mapsto> NvsULong (lastTimeSync c))\<rparr>))"

definition factory_reset :: "NodeConfigStore \<Rightarrow> NodeConfigStore" where
  "factory_reset st =
     (let st1 = (if nvs_open_ok st then st\<lparr>nvs := Map.empty\<rparr> else st);
          st2 = st1\<lparr>cfg := fill_defaults (cfg st1)\<rparr>
      in snd (save st2))"

section \<open>Command handler (command\_handler.cpp)\<close>

text \<open>\<^verbatim>\<open>_ack\<close>: a CMD\_ACK with status 0 or a CMD\_NACK with status 1.\<close>

definition ack_reply :: "u8 \<Rightarrow> u8 \<Rightarrow> bool \<Rightarrow> u8 list \<Rightarrow> nat \<times> u8 list" where
  "ack_reply sensor_id sq success buf =
     lss_build_ack (if success then CMD_ACK else CMD_NACK) sensor_id sq
       (if success then 0x00 else 0x01) buf"

text \<open>
  What a call of \<^verbatim>\<open>handle_command\<close> leaves behind: the returned size, the ACK buffer,
  the configuration store, the mesh router, and whether the node was restarted
  (\<^verbatim>\<open>ESP.restart()\<close>, after which the call does not return). The firmware build is
  modelled (\<^verbatim>\<open>TEST_BUILD\<close> not defined).
\<close>

record hc_result =
  hc_ret :: nat
  hc_ack_buf :: "u8 list"
  hc_store :: NodeConfigStore
  hc_mesh :: MeshRouter
  hc_restarted :: bool

text \<open>
  The body of the \<^verbatim>\<open>CMD_SET_LOCATION\<close> case up to the call of \<^verbatim>\<open>save()\<close>.
  \<open>remaining\<close> is a \<^verbatim>\<open>size_t\<close> (32 bits on the node): the subtraction wraps.
\<close>

definition set_location :: "CommandPacket \<Rightarrow> NodeConfig \<Rightarrow> NodeConfig" where
  "set_location pkt c =
     (let loc_len = c_strnlen (c_data pkt) LOCATION_MAXLEN;
          c1 = c\<lparr>location := (write_at (location c) 0
                                 (c_strncpy (c_data pkt) (LOCATION_MAXLEN - 1)))
                              [LOCATION_MAXLEN - 1 := 0]\<rparr>;
          zone_ptr = drop (loc_len + 1) (c_data pkt);
          remaining = (ucast (c_dataLength pkt) :: u32) - (of_nat loc_len + 1)
      in if remaining > 0 \<and> remaining \<le> of_nat ZONE_MAXLEN
         then c1\<lparr>zone := (write_at (zone c1) 0 (c_strncpy zone_ptr (ZONE_MAXLEN - 1)))
                           [ZONE_MAXLEN - 1 := 0]\<rparr>
         else c1)"

definition handle_command ::
    "CommandPacket \<Rightarrow> NodeConfigStore \<Rightarrow> MeshRouter \<Rightarrow> u8 list \<Rightarrow> hc_result" where
  "handle_command pkt cfg_store mesh ack_buf =
     (let c = cfg cfg_store;
          sq = c_sequenceNumber pkt;
          nid = nodeId c;
          ct = c_commandType pkt;
          dl = unat (c_dataLength pkt);
          d = c_data pkt;
          finish = (\<lambda>ok st m.
            let (n, b) = ack_reply nid sq ok ack_buf
            in \<lparr> hc_ret = n, hc_ack_buf = b, hc_store = st, hc_mesh = m,
                 hc_restarted = False \<rparr>);
          stored = (\<lambda>c'. snd (save (cfg_store\<lparr>cfg := c'\<rparr>)))
      in
      if ct = CMD_PING then finish True cfg_store mesh
      else if ct = CMD_GET_CONFIG then finish True cfg_store mesh
      else if ct = CMD_SET_INTERVAL then
        (if dl \<ge> 4 then
           (let interval = rd_u32 d 0 in
            if interval \<ge> 1000 \<and> interval \<le> 3600000
            then finish True (stored (c\<lparr>telemetryIntervalMs := interval\<rparr>)) mesh
            else finish False cfg_store mesh)
         else finish False cfg_store mesh)
      else if ct = CMD_SET_LOCATION then
        finish True (stored (set_location pkt c)) mesh
      else if ct = CMD_SET_TEMP_THRESH then
        (if dl \<ge> 8
         then finish True
                (stored (c\<lparr>tempThreshLow := rd_u32 d 0, tempThreshHigh := rd_u32 d 4\<rparr>)) mesh
         else finish False cfg_store mesh)
      else if ct = CMD_SET_BATTERY_THRESH then
        (if dl \<ge> 8
         then finish True
                (stored (c\<lparr>batteryThreshLow := rd_u32 d 0,
                             batteryThreshCritical := rd_u32 d 4\<rparr>)) mesh
         else finish False cfg_store mesh)
      else if ct = CMD_SET_MESH_CONFIG then
        (if dl \<ge> 1
         then finish True (stored (c\<lparr>meshEnabled := (d ! 0 \<noteq> 0)\<rparr>))
                (mesh\<lparr>enabled := (d ! 0 \<noteq> 0)\<rparr>)
         else finish False cfg_store mesh)
      else if ct = CMD_RESTART then
        \<lparr> hc_ret = sizeof_AckPacket,
          hc_ack_buf = snd (lss_build_ack CMD_ACK nid sq 0 ack_buf),
          hc_store = cfg_store, hc_mesh = mesh, hc_restarted = True \<rparr>
      else if ct = CMD_FACTORY_RESET then
        \<lparr> hc_ret = sizeof_AckPacket,
          hc_ack_buf = snd (lss_build_ack CMD_ACK nid sq 0 ack_buf),
          hc_store = factory_reset cfg_store, hc_mesh = mesh, hc_restarted = True \<rparr>
      else if ct = CMD_SET_LORA_PARAMS then
        (if dl \<ge> 7
         then finish True
                (stored (c\<lparr>loraFrequency := rd_u32 d 0, loraSpreadingFactor := d ! 4,
                             loraTxPower := d ! 6\<rparr>)) mesh
         else finish False cfg_store mesh)
      else if ct = CMD_TIME_SYNC \<or> ct = CMD_BASE_WELCOME then
        (if dl \<ge> 6
         then finish True
                (stored (c\<lparr>lastTimeSync := rd_u32 d 0,
                             tzOffsetMinutes := scast (rd_u16 d 4)\<rparr>)) mesh
         else finish False cfg_store mesh)
      else finish False cfg_store mesh)"

section \<open>Fixtures of the unit tests (test\_packets, test\_mesh)\<close>

text \<open>\<^verbatim>\<open>memset(&pkt, 0, sizeof(pkt))\<close> on a \<^verbatim>\<open>MultiSensorPacket\<close>.\<close>

definition zero_packet :: MultiSensorPacket where
  "zero_packet =
     \<lparr> p_header =
         \<lparr> h_syncWord = 0, h_networkId = 0, h_packetType = 0, h_sensorId = 0,
           h_valueCount = 0, h_batteryPercent = 0, h_powerState = 0, h_lastCommandSeq = 0,
           h_ackStatus = 0, h_pad = 0, h_location = replicate 32 0, h_zone = replicate 16 0 \<rparr>,
       p_values = replicate 16 \<lparr> sv_type = 0, sv_value = 0 \<rparr>,
       p_checksum = 0 \<rparr>"

text \<open>
  The packet of \<^verbatim>\<open>test_multi_sensor_round_trip\<close>: sensor 5, battery 85, location
  "Shed", zone "Outdoor", temperature 19.5 and humidity 62.0 (as float bit patterns).
\<close>

definition test_round_trip_packet :: MultiSensorPacket where
  "test_round_trip_packet =
     \<lparr> p_header =
         \<lparr> h_syncWord = SYNC_MULTI_SENSOR, h_networkId = 1, h_packetType = 1, h_sensorId = 5,
           h_valueCount = 2, h_batteryPercent = 85, h_powerState = 0, h_lastCommandSeq = 0,
           h_ackStatus = 0, h_pad = 0,
           h_location = [0x53, 0x68, 0x65, 0x64] @ replicate 28 0,
           h_zone = [0x4F, 0x75, 0x74, 0x64, 0x6F, 0x6F, 0x72] @ replicate 9 0 \<rparr>,
       p_values = [\<lparr> sv_type = 0, sv_value = 0x419C0000 \<rparr>,
                   \<lparr> sv_type = 1, sv_value = 0x42780000 \<rparr>]
                  @ replicate 14 \<lparr> sv_type = 0, sv_value = 0 \<rparr>,
       p_checksum = 0 \<rparr>"

text \<open>A command packet with all of the data area zero but the given leading bytes.\<close>

definition make_command :: "u8 \<Rightarrow> u8 \<Rightarrow> u8 \<Rightarrow> u8 \<Rightarrow> u8 list \<Rightarrow> CommandPacket" where
  "make_command ct target sq dl payload =
     \<lparr> c_syncWord = SYNC_COMMAND, c_commandType = ct, c_targetSensorId = target,
       c_sequenceNumber = sq, c_dataLength = dl, c_pad = 0,
       c_data = payload @ replicate (192 - length payload) 0, c_checksum = 0 \<rparr>"

text \<open>The command of \<^verbatim>\<open>test_command_round_trip\<close>: SET\_INTERVAL 15000 to node 7, seq 42.\<close>

definition test_command_packet :: CommandPacket where
  "test_command_packet = make_command CMD_SET_INTERVAL 7 42 4 [0x98, 0x3A, 0x00, 0x00]"

text \<open>The packet that \<^verbatim>\<open>lss_build_ack(CMD_ACK, 3, 7, 0, ...)\<close> serialises (\<^verbatim>\<open>test_build_ack\<close>).\<close>

definition test_ack_packet :: AckPacket where
  "test_ack_packet =
     \<lparr> a_syncWord = SYNC_COMMAND, a_commandType = CMD_ACK, a_sensorId = 3,
       a_sequenceNumber = 7, a_statusCode = 0, a_dataLength = 0, a_pad = 0,
       a_data = replicate 192 0, a_checksum = 0 \<rparr>"

text \<open>A value-initialised \<^verbatim>\<open>NodeConfigStore\<close> after the defaults are applied.\<close>

definition default_store :: NodeConfigStore where
  "default_store =
     \<lparr> cfg = fill_defaults
         \<lparr> nodeId = 0, networkId = 0, telemetryIntervalMs = 0,
           location = replicate 32 0, zone = replicate 16 0,
           tempThreshHigh = 0, tempThreshLow = 0, batteryThreshLow = 0,
           batteryThreshCritical = 0, loraFrequency = 0, loraSpreadingFactor = 0,
           loraTxPower = 0, meshEnabled = False, tzOffsetMinutes = 0, lastTimeSync = 0 \<rparr>,
       nvs = Map.empty, nvs_open_ok = True \<rparr>"

text \<open>\<^verbatim>\<open>_make_mesh_frame\<close> of test\_mesh: next hop is the destination, previous hop the source.\<close>

definition make_mesh_frame :: "u8 \<Rightarrow> u8 \<Rightarrow> u8 \<Rightarrow> u8 \<Rightarrow> u8 \<Rightarrow> u8 list \<Rightarrow> u8 list" where
  "make_mesh_frame pkt_type src dest hop_count ttl payload =
     mesh_header_bytes
       \<lparr> m_packetType = pkt_type, m_sourceId = src, m_destId = dest, m_nextHop = dest,
         m_prevHop = src, m_hopCount = hop_count, m_ttl = ttl, m_sequenceNum = 1 \<rparr>
     @ payload"

section \<open>Lemmas about the byte layout\<close>

lemma crc16_bits_numeral:
  "crc16_bits (numeral k) crc = crc16_bits (pred_numeral k) (crc16_bit crc)"
  by (simp add: numeral_eq_Suc)

lemma u16_join: "ucast (ucast w :: u8) OR push_bit 8 (ucast (ucast (drop_bit 8 w) :: u8)) = (w :: u16)"
  by (rule bit_word_eqI) (auto simp: bit_simps)

lemma u32_join:
  "ucast (ucast w :: u8) OR push_bit 8 (ucast (ucast (drop_bit 8 w) :: u8))
     OR push_bit 16 (ucast (ucast (drop_bit 16 w) :: u8))
     OR push_bit 24 (ucast (ucast (drop_bit 24 w) :: u8)) = (w :: u32)"
proof (rule bit_word_eqI)
  fix n :: nat
  assume "n < LENGTH(32)"
  then consider "n < 8" | "8 \<le> n \<and> n < 16" | "16 \<le> n \<and> n < 24" | "24 \<le> n \<and> n < 32"
    by fastforce
  then show "bit (ucast (ucast w :: u8) OR push_bit 8 (ucast (ucast (drop_bit 8 w) :: u8))
     OR push_bit 16 (ucast (ucast (drop_bit 16 w) :: u8))
     OR push_bit 24 (ucast (ucast (drop_bit 24 w) :: u8)) :: u32) n = bit w n"
    by cases (auto simp: bit_simps)
qed

lemma length_u16_le [simp]: "length (u16_le w) = 2"
  by (simp add: u16_le_def)

lemma length_u32_le [simp]: "length (u32_le w) = 4"
  by (simp add: u32_le_def)

lemma rd_u16_at: "rd_u16 (xs @ u16_le w @ ys) (length xs) = w"
  by (simp add: rd_u16_def u16_le_def nth_append u16_join)

lemma rd_u32_at: "rd_u32 (xs @ u32_le w @ ys) (length xs) = w"
  by (simp add: rd_u32_def u32_le_def nth_append u32_join)

lemma length_header_bytes: "wf_header h \<Longrightarrow> length (header_bytes h) = 60"
  by (simp add: wf_header_def header_bytes_def)

lemma header_roundtrip: "wf_header h \<Longrightarrow> header_of_bytes (header_bytes h @ rest) = h"
  by (simp add: wf_header_def header_bytes_def header_of_bytes_def rd_u16_def u16_le_def u16_join)

lemmas sizeofs = sizeof_SensorValuePacket_def sizeof_MultiSensorHeader_def
  sizeof_CommandPacket_def sizeof_AckPacket_def sizeof_uint16_def

lemma length_sv_bytes [simp]: "length (sv_bytes v) = 5"
  by (simp add: sv_bytes_def)

lemma sv_roundtrip: "sv_of_bytes (sv_bytes v @ rest) = v"
  using rd_u32_at [of "[sv_type v]" "sv_value v" rest]
  by (simp add: sv_of_bytes_def sv_bytes_def)

lemma length_concat_sv [simp]: "length (concat (map sv_bytes vs)) = 5 * length vs"
  by (induction vs) simp_all

lemma drop_concat_sv:
  "drop (i * 5) (concat (map sv_bytes vs)) = concat (map sv_bytes (drop i vs))"
proof (induction vs arbitrary: i)
  case Nil
  then show ?case by simp
next
  case (Cons v vs)
  show ?case
  proof (cases i)
    case 0
    then show ?thesis by simp
  next
    case (Suc j)
    with Cons [of j] show ?thesis by simp
  qed
qed

lemma take_concat_sv:
  "take (i * 5) (concat (map sv_bytes vs)) = concat (map sv_bytes (take i vs))"
proof (induction vs arbitrary: i)
  case Nil
  then show ?case by simp
next
  case (Cons v vs)
  show ?case
  proof (cases i)
    case 0
    then show ?thesis by simp
  next
    case (Suc j)
    with Cons [of j] show ?thesis by simp
  qed
qed

lemma values_roundtrip:
  "values_of_bytes (pre @ concat (map sv_bytes vs) @ rest) (length pre) (length vs) = vs"
proof (rule nth_equalityI)
  show "length (values_of_bytes (pre @ concat (map sv_bytes vs) @ rest) (length pre) (length vs))
          = length vs"
    by (simp add: values_of_bytes_def)
next
  fix i
  assume "i < length (values_of_bytes (pre @ concat (map sv_bytes vs) @ rest) (length pre) (length vs))"
  then have i: "i < length vs"
    by (simp add: values_of_bytes_def)
  have "drop (length pre + i * 5) (pre @ concat (map sv_bytes vs) @ rest)
          = concat (map sv_bytes (drop i vs)) @ rest"
    using i by (simp add: drop_concat_sv)
  also have "\<dots> = sv_bytes (vs ! i) @ (concat (map sv_bytes (drop (Suc i) vs)) @ rest)"
    using i by (simp add: Cons_nth_drop_Suc [symmetric])
  finally have "take 5 (drop (length pre + i * 5) (pre @ concat (map sv_bytes vs) @ rest))
          = sv_bytes (vs ! i)"
    by simp
  then show "values_of_bytes (pre @ concat (map sv_bytes vs) @ rest) (length pre) (length vs) ! i
          = vs ! i"
    using i sv_roundtrip [of "vs ! i" "[]"]
    by (simp add: values_of_bytes_def sizeofs)
qed

lemma values_memory_in_range:
  assumes "n \<le> length (p_values p)"
  shows "values_memory past p (n * 5) = concat (map sv_bytes (take n (p_values p)))"
proof -
  have "n * 5 \<le> length (concat (map sv_bytes (p_values p)))"
    using assms by simp
  then show ?thesis
    by (simp add: values_memory_def take_concat_sv)
qed

lemma fst_serialize_multi_sensor:
  "lss_multi_sensor_size p \<le> length buf \<Longrightarrow>
     fst (lss_serialize_multi_sensor past p buf) = lss_multi_sensor_size p"
  by (simp add: lss_serialize_multi_sensor_def lss_multi_sensor_size_def Let_def)

lemma serialize_multi_sensor_frame:
  assumes wf: "wf_packet p"
    and vc: "unat (h_valueCount (p_header p)) \<le> MAX_SENSOR_VALUES"
    and sz: "lss_multi_sensor_size p \<le> length buf"
  shows "snd (lss_serialize_multi_sensor past p buf) =
           (let body = header_bytes (p_header p)
                         @ concat (map sv_bytes (take (unat (h_valueCount (p_header p))) (p_values p)))
            in body @ u16_le (lss_crc16 body) @ drop (lss_multi_sensor_size p) buf)"
proof -
  define n where "n = unat (h_valueCount (p_header p))"
  define hb where "hb = header_bytes (p_header p)"
  define vb where "vb = concat (map sv_bytes (take n (p_values p)))"
  have lh: "length hb = 60"
    using wf by (simp add: hb_def wf_packet_def length_header_bytes)
  have nle: "n \<le> length (p_values p)"
    using wf vc by (simp add: n_def wf_packet_def)
  have lv: "length vb = n * 5"
    using nle by (simp add: vb_def)
  have vm: "values_memory past p (n * 5) = vb"
    using nle by (simp add: vb_def values_memory_in_range)
  have len: "60 + n * 5 + 2 \<le> length buf"
    using sz by (simp add: lss_multi_sensor_size_def n_def sizeofs)
  have b1: "write_at buf 0 hb = hb @ drop 60 buf"
    by (simp add: write_at_def lh)
  have b2: "write_at (hb @ drop 60 buf) 60 vb = hb @ vb @ drop (60 + n * 5) buf"
    using len by (simp add: write_at_def lh lv add.commute)
  have b3: "write_at (hb @ vb @ drop (60 + n * 5) buf) (60 + n * 5) (u16_le c)
              = hb @ vb @ u16_le c @ drop (60 + n * 5 + 2) buf" for c
    using len by (simp add: write_at_def lh lv add.commute add.left_commute)
  have t: "take (60 + n * 5) (hb @ vb @ drop (60 + n * 5) buf) = hb @ vb"
    by (simp add: lh lv)
  have "snd (lss_serialize_multi_sensor past p buf)
          = hb @ vb @ u16_le (lss_crc16 (hb @ vb)) @ drop (60 + n * 5 + 2) buf"
    using len
    by (simp add: lss_serialize_multi_sensor_def lss_multi_sensor_size_def Let_def sizeofs
        n_def [symmetric] hb_def [symmetric] vm b1 b2 b3 lh lv)
  then show ?thesis
    by (simp add: Let_def hb_def vb_def n_def lss_multi_sensor_size_def sizeofs)
qed

section \<open>Lemmas about the codec\<close>

lemma crc_verifies_append: "crc_verifies (body @ u16_le (lss_crc16 body))"
  using rd_u16_at [of body "lss_crc16 body" "[]"]
  by (simp add: crc_verifies_def)

lemma deserialize_multi_sensor_frame:
  assumes wf: "wf_header h"
    and sync: "h_syncWord h = SYNC_MULTI_SENSOR"
    and n: "unat (h_valueCount h) = length vs"
    and vc: "length vs \<le> MAX_SENSOR_VALUES"
  shows "lss_deserialize_multi_sensor
           ((header_bytes h @ concat (map sv_bytes vs))
              @ u16_le (lss_crc16 (header_bytes h @ concat (map sv_bytes vs)))) out
         = (True, out\<lparr>p_header := h,
                        p_values := vs @ drop (length vs) (p_values out),
                        p_checksum := lss_crc16 (header_bytes h @ concat (map sv_bytes vs))\<rparr>)"
proof -
  define hb where "hb = header_bytes h"
  define vb where "vb = concat (map sv_bytes vs)"
  define frame where "frame = (hb @ vb) @ u16_le (lss_crc16 (hb @ vb))"
  have lh: "length hb = 60"
    using wf by (simp add: hb_def length_header_bytes)
  have lv: "length vb = 5 * length vs"
    by (simp add: vb_def)
  have lf: "length frame = 62 + 5 * length vs"
    by (simp add: frame_def lh lv)
  have t60: "take 60 frame = hb"
    by (simp add: frame_def lh)
  have hd: "header_of_bytes (take 60 frame) = h"
    using header_roundtrip [OF wf, of "[]"] by (simp add: t60 hb_def)
  have pe: "take (60 + length vs * 5) frame = hb @ vb"
    by (simp add: frame_def lh lv mult.commute)
  have rc: "rd_u16 frame (60 + length vs * 5) = lss_crc16 (hb @ vb)"
    using rd_u16_at [of "hb @ vb" "lss_crc16 (hb @ vb)" "[]"]
    by (simp add: frame_def lh lv mult.commute)
  have vals: "values_of_bytes frame 60 (length vs) = vs"
    using values_roundtrip [of hb vs "u16_le (lss_crc16 (hb @ vb))"]
    by (simp add: frame_def lh vb_def)
  have "lss_deserialize_multi_sensor frame out
         = (True, out\<lparr>p_header := h, p_values := vs @ drop (length vs) (p_values out),
                        p_checksum := lss_crc16 (hb @ vb)\<rparr>)"
    using sync n vc
    by (simp add: lss_deserialize_multi_sensor_def Let_def sizeofs lf hd pe rc vals)
  then show ?thesis
    by (simp add: frame_def hb_def vb_def)
qed

lemma deserialize_multi_sensor_fails_iff:
  "(\<not> fst (lss_deserialize_multi_sensor buf out)) =
     (let h = header_of_bytes buf;
          payload_end = sizeof_MultiSensorHeader + unat (h_valueCount h) * sizeof_SensorValuePacket
      in length buf < payload_end + sizeof_uint16
         \<or> h_syncWord h \<noteq> SYNC_MULTI_SENSOR
         \<or> unat (h_valueCount h) > MAX_SENSOR_VALUES
         \<or> rd_u16 buf payload_end \<noteq> lss_crc16 (take payload_end buf))"
proof (cases "length buf < 62")
  case True
  then show ?thesis
    by (simp add: lss_deserialize_multi_sensor_def Let_def sizeofs)
next
  case False
  then have "header_of_bytes (take 60 buf) = header_of_bytes buf"
    by (simp add: header_of_bytes_def rd_u16_def take_drop)
  with False show ?thesis
    by (auto simp add: lss_deserialize_multi_sensor_def Let_def sizeofs)
qed

lemma deserialize_multi_sensor_rejects:
  "\<not> fst (lss_deserialize_multi_sensor buf out) \<Longrightarrow>
     p_values (snd (lss_deserialize_multi_sensor buf out)) = p_values out \<and>
     p_checksum (snd (lss_deserialize_multi_sensor buf out)) = p_checksum out"
  by (simp add: lss_deserialize_multi_sensor_def Let_def split: if_splits)

lemma serialize_command_frame:
  assumes wf: "wf_command c" and sz: "sizeof_CommandPacket \<le> length buf"
  shows "lss_serialize_command c buf =
           (sizeof_CommandPacket,
            (take 199 (command_bytes c) @ u16_le (lss_crc16 (take 199 (command_bytes c))))
              @ drop 201 buf)"
proof -
  define pre where "pre = take 199 (command_bytes c)"
  have cb: "command_bytes c = pre @ u16_le (c_checksum c)"
    using wf by (simp add: pre_def command_bytes_def wf_command_def)
  have lp: "length pre = 199"
    using wf by (simp add: pre_def command_bytes_def wf_command_def)
  have len: "201 \<le> length buf"
    using sz by (simp add: sizeofs)
  have b1: "write_at buf 0 (command_bytes c) = pre @ u16_le (c_checksum c) @ drop 201 buf"
    by (simp add: write_at_def cb lp)
  have b2: "write_at (pre @ u16_le (c_checksum c) @ drop 201 buf) 199 (u16_le x)
              = pre @ u16_le x @ drop 201 buf" for x
    using len by (simp add: write_at_def lp)
  have "lss_serialize_command c buf = (201, pre @ u16_le (lss_crc16 pre) @ drop 201 buf)"
    using len by (simp add: lss_serialize_command_def Let_def sizeofs b1 b2 lp)
  then show ?thesis
    by (simp add: pre_def sizeofs)
qed

lemma command_of_frame:
  assumes wf: "wf_command c"
  shows "command_of_bytes (take 199 (command_bytes c) @ u16_le x) = c\<lparr>c_checksum := x\<rparr>"
  using wf
  by (simp add: command_of_bytes_def command_bytes_def wf_command_def rd_u16_def u16_le_def
      u16_join nth_append)

lemma deserialize_command_frame:
  assumes wf: "wf_command c" and sync: "c_syncWord c = SYNC_COMMAND"
  shows "lss_deserialize_command
           (take 199 (command_bytes c) @ u16_le (lss_crc16 (take 199 (command_bytes c)))) out
         = (True, c\<lparr>c_checksum := lss_crc16 (take 199 (command_bytes c))\<rparr>)"
proof -
  define pre where "pre = take 199 (command_bytes c)"
  have lp: "length pre = 199"
    using wf by (simp add: pre_def command_bytes_def wf_command_def)
  have cf: "command_of_bytes (pre @ u16_le (lss_crc16 pre)) = c\<lparr>c_checksum := lss_crc16 pre\<rparr>"
    unfolding pre_def by (rule command_of_frame [OF wf])
  have "lss_deserialize_command (pre @ u16_le (lss_crc16 pre)) out
          = (True, c\<lparr>c_checksum := lss_crc16 pre\<rparr>)"
    using sync by (simp add: lss_deserialize_command_def Let_def sizeofs lp cf)
  then show ?thesis
    by (simp add: pre_def)
qed

lemma serialize_ack_frame:
  assumes wf: "wf_ack a" and sz: "sizeof_AckPacket \<le> length buf"
  shows "lss_serialize_ack a buf =
           (sizeof_AckPacket,
            (take 200 (ack_bytes a) @ u16_le (lss_crc16 (take 200 (ack_bytes a))))
              @ drop 202 buf)"
proof -
  define pre where "pre = take 200 (ack_bytes a)"
  have cb: "ack_bytes a = pre @ u16_le (a_checksum a)"
    using wf by (simp add: pre_def ack_bytes_def wf_ack_def)
  have lp: "length pre = 200"
    using wf by (simp add: pre_def ack_bytes_def wf_ack_def)
  have len: "202 \<le> length buf"
    using sz by (simp add: sizeofs)
  have b1: "write_at buf 0 (ack_bytes a) = pre @ u16_le (a_checksum a) @ drop 202 buf"
    by (simp add: write_at_def cb lp)
  have b2: "write_at (pre @ u16_le (a_checksum a) @ drop 202 buf) 200 (u16_le x)
              = pre @ u16_le x @ drop 202 buf" for x
    using len by (simp add: write_at_def lp)
  have "lss_serialize_ack a buf = (202, pre @ u16_le (lss_crc16 pre) @ drop 202 buf)"
    using len by (simp add: lss_serialize_ack_def Let_def sizeofs b1 b2 lp)
  then show ?thesis
    by (simp add: pre_def sizeofs)
qed

lemma ack_of_frame:
  assumes wf: "wf_ack a"
  shows "ack_of_bytes (take 200 (ack_bytes a) @ u16_le x) = a\<lparr>a_checksum := x\<rparr>"
  using wf
  by (simp add: ack_of_bytes_def ack_bytes_def wf_ack_def rd_u16_def u16_le_def
      u16_join nth_append)

lemma deserialize_ack_frame:
  assumes wf: "wf_ack a" and sync: "a_syncWord a = SYNC_COMMAND"
  shows "deserialize_ack
           (take 200 (ack_bytes a) @ u16_le (lss_crc16 (take 200 (ack_bytes a))))
         = Some (a\<lparr>a_checksum := lss_crc16 (take 200 (ack_bytes a))\<rparr>)"
proof -
  define pre where "pre = take 200 (ack_bytes a)"
  have lp: "length pre = 200"
    using wf by (simp add: pre_def ack_bytes_def wf_ack_def)
  have cf: "ack_of_bytes (pre @ u16_le (lss_crc16 pre)) = a\<lparr>a_checksum := lss_crc16 pre\<rparr>"
    unfolding pre_def by (rule ack_of_frame [OF wf])
  have "deserialize_ack (pre @ u16_le (lss_crc16 pre)) = Some (a\<lparr>a_checksum := lss_crc16 pre\<rparr>)"
    using sync by (simp add: deserialize_ack_def Let_def sizeofs lp cf)
  then show ?thesis
    by (simp add: pre_def)
qed

section \<open>Claims about the codec\<close>

text \<open>
  C7. The CRC of the empty byte sequence is \<open>0xFFFF\<close>, and the CRC of the nine ASCII
  bytes of "123456789" is \<open>0x29B1\<close>, the check value of CRC-16/CCITT-FALSE (polynomial
  \<open>0x1021\<close>, initial value \<open>0xFFFF\<close>, no reflection, no final xor).
\<close>

theorem crc16_check_values:
  "lss_crc16 [] = 0xFFFF \<and>
   lss_crc16 [0x31, 0x32, 0x33, 0x34, 0x35, 0x36, 0x37, 0x38, 0x39] = 0x29B1"
  by (simp add: lss_crc16_def crc16_byte_def crc16_bit_def crc16_bits_numeral)

lemma length_values_memory [simp]: "length (values_memory past p n) = n"
  by (simp add: values_memory_def)

lemma serialize_multi_sensor_header:
  assumes wf: "wf_header (p_header p)" and sz: "lss_multi_sensor_size p \<le> length buf"
  shows "take 60 (snd (lss_serialize_multi_sensor past p buf)) = header_bytes (p_header p)"
proof -
  have lh: "length (header_bytes (p_header p)) = 60"
    using wf by (rule length_header_bytes)
  have len: "62 + unat (h_valueCount (p_header p)) * 5 \<le> length buf"
    using sz by (simp add: lss_multi_sensor_size_def sizeofs)
  then show ?thesis
    by (simp add: lss_serialize_multi_sensor_def lss_multi_sensor_size_def Let_def sizeofs
        write_at_def lh)
qed

text \<open>
  C1. The claim is that \<open>lss_serialize_multi_sensor\<close> returns 0 and writes nothing when
  \<open>valueCount\<close> exceeds 16, for every output buffer. The serialiser has no such guard: its
  only check is the buffer size. Evaluated on the round-trip test packet with
  \<open>valueCount\<close> set to 17 and a zeroed 255-byte buffer, it returns 147 = 60 + 17 * 5 + 2, the
  buffer is changed, and the frame it produced is rejected by
  \<open>lss_deserialize_multi_sensor\<close>, which does check \<open>valueCount > MAX_SENSOR_VALUES\<close>.
\<close>

theorem serialize_multi_sensor_overlong:
  "fst (lss_serialize_multi_sensor (\<lambda>i. 0)
          (test_round_trip_packet\<lparr>p_header := (p_header test_round_trip_packet)\<lparr>h_valueCount := 17\<rparr>\<rparr>)
          (replicate 255 0)) = 147
   \<and> snd (lss_serialize_multi_sensor (\<lambda>i. 0)
          (test_round_trip_packet\<lparr>p_header := (p_header test_round_trip_packet)\<lparr>h_valueCount := 17\<rparr>\<rparr>)
          (replicate 255 0)) \<noteq> replicate 255 0
   \<and> \<not> fst (lss_deserialize_multi_sensor
          (take 147 (snd (lss_serialize_multi_sensor (\<lambda>i. 0)
             (test_round_trip_packet\<lparr>p_header := (p_header test_round_trip_packet)\<lparr>h_valueCount := 17\<rparr>\<rparr>)
             (replicate 255 0))))
          zero_packet)"
proof -
  define p where
    "p = test_round_trip_packet\<lparr>p_header := (p_header test_round_trip_packet)\<lparr>h_valueCount := 17\<rparr>\<rparr>"
  define buf :: "u8 list" where "buf = replicate 255 0"
  define out where "out = snd (lss_serialize_multi_sensor (\<lambda>i. 0) p buf)"
  have wf: "wf_header (p_header p)"
    by (simp add: p_def test_round_trip_packet_def wf_header_def)
  have size: "lss_multi_sensor_size p = 147"
    by (simp add: p_def lss_multi_sensor_size_def sizeofs)
  have sz: "lss_multi_sensor_size p \<le> length buf"
    by (simp add: size buf_def)
  have r: "fst (lss_serialize_multi_sensor (\<lambda>i. 0) p buf) = 147"
    using fst_serialize_multi_sensor [OF sz] size by simp
  have hd: "take 60 out = header_bytes (p_header p)"
    unfolding out_def using wf sz by (rule serialize_multi_sensor_header)
  have h4: "header_bytes (p_header p) ! 4 = 1"
    by (simp add: p_def test_round_trip_packet_def header_bytes_def u16_le_def)
  have "out ! 4 = take 60 out ! 4"
    by simp
  also have "\<dots> = 1"
    by (simp only: hd h4)
  finally have o4: "out ! 4 = 1" .
  have b4: "buf ! 4 = 0"
    by (simp add: buf_def)
  have ne: "out \<noteq> buf"
    using o4 b4 by auto
  have "length out = 255"
    using sz by (simp add: out_def lss_serialize_multi_sensor_def Let_def write_at_def
        lss_multi_sensor_size_def sizeofs buf_def length_header_bytes [OF wf])
  then have "take 60 (take 147 out) = header_bytes (p_header p)"
    using hd by simp
  then have "header_of_bytes (take 60 (take 147 out)) = p_header p"
    using header_roundtrip [OF wf, of "[]"] by simp
  moreover have "length (take 147 out) = 147"
    using \<open>length out = 255\<close> by simp
  ultimately have "\<not> fst (lss_deserialize_multi_sensor (take 147 out) zero_packet)"
    by (simp add: lss_deserialize_multi_sensor_def Let_def sizeofs p_def
        test_round_trip_packet_def MAX_SENSOR_VALUES_def del: take_take)
  with r ne show ?thesis
    by (simp add: p_def buf_def out_def)
qed

lemma multi_sensor_round_trip:
  assumes wf: "wf_packet p"
    and sync: "h_syncWord (p_header p) = SYNC_MULTI_SENSOR"
    and vcle: "unat (h_valueCount (p_header p)) \<le> MAX_SENSOR_VALUES"
    and sz: "lss_multi_sensor_size p \<le> length buf"
  shows "(let s = lss_serialize_multi_sensor past p buf;
              frame = take (fst s) (snd s);
              d = lss_deserialize_multi_sensor frame out;
              vc = unat (h_valueCount (p_header p))
          in fst s = lss_multi_sensor_size p
             \<and> fst d
             \<and> p_header (snd d) = p_header p
             \<and> take vc (p_values (snd d)) = take vc (p_values p)
             \<and> crc_verifies frame)"
proof -
  define vc where "vc = unat (h_valueCount (p_header p))"
  define vs where "vs = take vc (p_values p)"
  define body where "body = header_bytes (p_header p) @ concat (map sv_bytes vs)"
  define frame where "frame = body @ u16_le (lss_crc16 body)"
  have wfh: "wf_header (p_header p)" and lvals: "length (p_values p) = 16"
    using wf by (simp_all add: wf_packet_def MAX_SENSOR_VALUES_def)
  have lvs: "length vs = vc"
    using vcle lvals by (simp add: vs_def vc_def MAX_SENSOR_VALUES_def)
  have lf: "length frame = lss_multi_sensor_size p"
    by (simp add: frame_def body_def length_header_bytes [OF wfh] lvs
        lss_multi_sensor_size_def sizeofs vc_def)
  have m1: "fst (lss_serialize_multi_sensor past p buf) = lss_multi_sensor_size p"
    using sz by (rule fst_serialize_multi_sensor)
  have "snd (lss_serialize_multi_sensor past p buf) = frame @ drop (lss_multi_sensor_size p) buf"
    using serialize_multi_sensor_frame [OF wf vcle sz, of past]
    by (simp add: Let_def frame_def body_def vs_def vc_def)
  then have m2: "take (lss_multi_sensor_size p) (snd (lss_serialize_multi_sensor past p buf))
                   = frame"
    by (simp add: lf)
  have m3: "lss_deserialize_multi_sensor frame out
              = (True, out\<lparr>p_header := p_header p,
                            p_values := vs @ drop (length vs) (p_values out),
                            p_checksum := lss_crc16 body\<rparr>)"
    unfolding frame_def body_def
    using wfh sync lvs vcle
    by (intro deserialize_multi_sensor_frame) (simp_all add: vc_def)
  have m4: "crc_verifies frame"
    unfolding frame_def by (rule crc_verifies_append)
  have m5: "take vc (vs @ drop (length vs) (p_values out)) = take vc (p_values p)"
    using lvs by (simp add: vs_def)
  show ?thesis
    unfolding Let_def m1 m2 m3 fst_conv snd_conv
    using m4 m5 by (simp add: vc_def)
qed

lemma command_round_trip:
  assumes wf: "wf_command c"
    and sync: "c_syncWord c = SYNC_COMMAND"
    and sz: "sizeof_CommandPacket \<le> length buf"
  shows "(let s = lss_serialize_command c buf;
              frame = take (fst s) (snd s);
              d = lss_deserialize_command frame out
          in fst s = sizeof_CommandPacket
             \<and> d = (True, c\<lparr>c_checksum := lss_crc16 (take (sizeof_CommandPacket - sizeof_uint16) frame)\<rparr>)
             \<and> crc_verifies frame)"
proof -
  define body where "body = take 199 (command_bytes c)"
  define frame where "frame = body @ u16_le (lss_crc16 body)"
  have lb: "length body = 199"
    using wf by (simp add: body_def command_bytes_def wf_command_def)
  have c1: "lss_serialize_command c buf = (sizeof_CommandPacket, frame @ drop 201 buf)"
    using serialize_command_frame [OF wf sz] by (simp add: frame_def body_def)
  have c2: "take sizeof_CommandPacket (frame @ drop 201 buf) = frame"
    by (simp add: frame_def lb sizeofs)
  have c3: "lss_deserialize_command frame out = (True, c\<lparr>c_checksum := lss_crc16 body\<rparr>)"
    unfolding frame_def body_def by (rule deserialize_command_frame [OF wf sync])
  have c4: "crc_verifies frame"
    unfolding frame_def by (rule crc_verifies_append)
  have c5: "take (sizeof_CommandPacket - sizeof_uint16) frame = body"
    by (simp add: frame_def lb sizeofs)
  show ?thesis
    unfolding Let_def c1 fst_conv snd_conv c2 c3 c5
    using c4 by simp
qed

lemma ack_round_trip:
  assumes wf: "wf_ack a"
    and sync: "a_syncWord a = SYNC_COMMAND"
    and sz: "sizeof_AckPacket \<le> length buf"
  shows "(let s = lss_serialize_ack a buf;
              frame = take (fst s) (snd s)
          in fst s = sizeof_AckPacket
             \<and> deserialize_ack frame
                  = Some (a\<lparr>a_checksum := lss_crc16 (take (sizeof_AckPacket - sizeof_uint16) frame)\<rparr>)
             \<and> crc_verifies frame)"
proof -
  define body where "body = take 200 (ack_bytes a)"
  define frame where "frame = body @ u16_le (lss_crc16 body)"
  have lb: "length body = 200"
    using wf by (simp add: body_def ack_bytes_def wf_ack_def)
  have a1: "lss_serialize_ack a buf = (sizeof_AckPacket, frame @ drop 202 buf)"
    using serialize_ack_frame [OF wf sz] by (simp add: frame_def body_def)
  have a2: "take sizeof_AckPacket (frame @ drop 202 buf) = frame"
    by (simp add: frame_def lb sizeofs)
  have a3: "deserialize_ack frame = Some (a\<lparr>a_checksum := lss_crc16 body\<rparr>)"
    unfolding frame_def body_def by (rule deserialize_ack_frame [OF wf sync])
  have a4: "crc_verifies frame"
    unfolding frame_def by (rule crc_verifies_append)
  have a5: "take (sizeof_AckPacket - sizeof_uint16) frame = body"
    by (simp add: frame_def lb sizeofs)
  show ?thesis
    unfolding Let_def a1 fst_conv snd_conv a2 a3 a5
    using a4 by simp
qed

text \<open>
  C2. Round trip. For a multi-sensor packet with the right sync word and at most 16
  values, a command packet with the right sync word and an ACK packet with the right sync
  word, each serialised into a buffer that is large enough: the serialiser returns the
  frame size; deserialising the frame succeeds; the header read back is the header of the
  packet and the first \<open>valueCount\<close> value entries are its entries; the command and the
  ACK read back are the packets with the checksum field replaced by the CRC of the bytes
  before it; and the trailing CRC of each frame verifies. The multi-sensor and command
  parts are about the firmware's codec; the ACK is read back by \<open>deserialize_ack\<close>.
\<close>

theorem serialize_deserialize_round_trip:
  "(wf_packet p \<and> h_syncWord (p_header p) = SYNC_MULTI_SENSOR
      \<and> unat (h_valueCount (p_header p)) \<le> MAX_SENSOR_VALUES
      \<and> lss_multi_sensor_size p \<le> length mbuf \<longrightarrow>
      (let s = lss_serialize_multi_sensor past p mbuf;
           frame = take (fst s) (snd s);
           d = lss_deserialize_multi_sensor frame mout;
           vc = unat (h_valueCount (p_header p))
       in fst s = lss_multi_sensor_size p
          \<and> fst d
          \<and> p_header (snd d) = p_header p
          \<and> take vc (p_values (snd d)) = take vc (p_values p)
          \<and> crc_verifies frame))
   \<and> (wf_command c \<and> c_syncWord c = SYNC_COMMAND \<and> sizeof_CommandPacket \<le> length cbuf \<longrightarrow>
      (let s = lss_serialize_command c cbuf;
           frame = take (fst s) (snd s);
           d = lss_deserialize_command frame cout
       in fst s = sizeof_CommandPacket
          \<and> d = (True, c\<lparr>c_checksum := lss_crc16 (take (sizeof_CommandPacket - sizeof_uint16) frame)\<rparr>)
          \<and> crc_verifies frame))
   \<and> (wf_ack a \<and> a_syncWord a = SYNC_COMMAND \<and> sizeof_AckPacket \<le> length abuf \<longrightarrow>
      (let s = lss_serialize_ack a abuf;
           frame = take (fst s) (snd s)
       in fst s = sizeof_AckPacket
          \<and> deserialize_ack frame
               = Some (a\<lparr>a_checksum := lss_crc16 (take (sizeof_AckPacket - sizeof_uint16) frame)\<rparr>)
          \<and> crc_verifies frame))"
  using multi_sensor_round_trip [of p mbuf past mout] command_round_trip [of c cbuf cout]
    ack_round_trip [of a abuf]
  by blast

text \<open>
  The round trip on the packets of the unit tests: the telemetry packet of
  \<^verbatim>\<open>test_multi_sensor_round_trip\<close>, the SET\_INTERVAL command of
  \<^verbatim>\<open>test_command_round_trip\<close> (whose payload reads back as 15000), and the ACK of
  \<^verbatim>\<open>test_build_ack\<close>.
\<close>

theorem serialize_deserialize_round_trip_witness:
  "wf_packet test_round_trip_packet
   \<and> h_syncWord (p_header test_round_trip_packet) = SYNC_MULTI_SENSOR
   \<and> unat (h_valueCount (p_header test_round_trip_packet)) \<le> MAX_SENSOR_VALUES
   \<and> lss_multi_sensor_size test_round_trip_packet \<le> length (replicate 255 (0 :: u8))
   \<and> wf_command test_command_packet
   \<and> c_syncWord test_command_packet = SYNC_COMMAND
   \<and> sizeof_CommandPacket \<le> length (replicate 201 (0 :: u8))
   \<and> wf_ack test_ack_packet
   \<and> a_syncWord test_ack_packet = SYNC_COMMAND
   \<and> sizeof_AckPacket \<le> length (replicate 202 (0 :: u8))
   \<and> fst (lss_serialize_multi_sensor (\<lambda>i. 0) test_round_trip_packet (replicate 255 0)) = 72
   \<and> fst (lss_deserialize_multi_sensor
             (take 72 (snd (lss_serialize_multi_sensor (\<lambda>i. 0) test_round_trip_packet
                              (replicate 255 0))))
             zero_packet)
   \<and> p_header (snd (lss_deserialize_multi_sensor
             (take 72 (snd (lss_serialize_multi_sensor (\<lambda>i. 0) test_round_trip_packet
                              (replicate 255 0))))
             zero_packet)) = p_header test_round_trip_packet
   \<and> take 2 (p_values (snd (lss_deserialize_multi_sensor
             (take 72 (snd (lss_serialize_multi_sensor (\<lambda>i. 0) test_round_trip_packet
                              (replicate 255 0))))
             zero_packet))) = take 2 (p_values test_round_trip_packet)
   \<and> fst (lss_deserialize_command
             (take 201 (snd (lss_serialize_command test_command_packet (replicate 201 0))))
             test_command_packet)
   \<and> rd_u32 (c_data (snd (lss_deserialize_command
             (take 201 (snd (lss_serialize_command test_command_packet (replicate 201 0))))
             test_command_packet))) 0 = 15000
   \<and> deserialize_ack (take 202 (snd (lss_serialize_ack test_ack_packet (replicate 202 0))))
        \<noteq> None"
proof -
  have h1: "wf_packet test_round_trip_packet"
    by (simp add: wf_packet_def wf_header_def test_round_trip_packet_def MAX_SENSOR_VALUES_def)
  have h2: "h_syncWord (p_header test_round_trip_packet) = SYNC_MULTI_SENSOR"
    by (simp add: test_round_trip_packet_def)
  have h3: "unat (h_valueCount (p_header test_round_trip_packet)) \<le> MAX_SENSOR_VALUES"
    by (simp add: test_round_trip_packet_def MAX_SENSOR_VALUES_def)
  have sz: "lss_multi_sensor_size test_round_trip_packet = 72"
    by (simp add: lss_multi_sensor_size_def test_round_trip_packet_def sizeofs)
  have h4: "lss_multi_sensor_size test_round_trip_packet \<le> length (replicate 255 (0 :: u8))"
    by (simp add: sz)
  have h5: "wf_command test_command_packet"
    by (simp add: wf_command_def test_command_packet_def make_command_def)
  have h6: "c_syncWord test_command_packet = SYNC_COMMAND"
    by (simp add: test_command_packet_def make_command_def)
  have h7: "sizeof_CommandPacket \<le> length (replicate 201 (0 :: u8))"
    by (simp add: sizeofs)
  have h8: "wf_ack test_ack_packet"
    by (simp add: wf_ack_def test_ack_packet_def)
  have h9: "a_syncWord test_ack_packet = SYNC_COMMAND"
    by (simp add: test_ack_packet_def)
  have h10: "sizeof_AckPacket \<le> length (replicate 202 (0 :: u8))"
    by (simp add: sizeofs)
  have vc: "unat (h_valueCount (p_header test_round_trip_packet)) = 2"
    by (simp add: test_round_trip_packet_def)
  have iv: "rd_u32 (c_data test_command_packet) 0 = 15000"
    by (simp add: test_command_packet_def make_command_def rd_u32_def)
  note rt = serialize_deserialize_round_trip
    [of test_round_trip_packet "replicate 255 0" "\<lambda>i. 0" zero_packet
        test_command_packet "replicate 201 0" test_command_packet
        test_ack_packet "replicate 202 0", unfolded Let_def]
  let ?sm = "lss_serialize_multi_sensor (\<lambda>i. 0) test_round_trip_packet (replicate 255 0)"
  let ?sc = "lss_serialize_command test_command_packet (replicate 201 0)"
  let ?sa = "lss_serialize_ack test_ack_packet (replicate 202 0)"
  from rt h1 h2 h3 h4 have e1: "fst ?sm = lss_multi_sensor_size test_round_trip_packet"
    by blast
  from rt h5 h6 h7 have e2: "fst ?sc = sizeof_CommandPacket"
    by blast
  from rt h8 h9 h10 have e3: "fst ?sa = sizeof_AckPacket"
    by blast
  from rt h1 h2 h3 h4
  have m: "fst (lss_deserialize_multi_sensor (take (fst ?sm) (snd ?sm)) zero_packet)"
    "p_header (snd (lss_deserialize_multi_sensor (take (fst ?sm) (snd ?sm)) zero_packet))
       = p_header test_round_trip_packet"
    "take (unat (h_valueCount (p_header test_round_trip_packet)))
       (p_values (snd (lss_deserialize_multi_sensor (take (fst ?sm) (snd ?sm)) zero_packet)))
       = take (unat (h_valueCount (p_header test_round_trip_packet)))
           (p_values test_round_trip_packet)"
    by blast+
  from rt h5 h6 h7
  have c: "lss_deserialize_command (take (fst ?sc) (snd ?sc)) test_command_packet
             = (True, test_command_packet\<lparr>c_checksum :=
                  lss_crc16 (take (sizeof_CommandPacket - sizeof_uint16)
                    (take (fst ?sc) (snd ?sc)))\<rparr>)"
    by blast
  from rt h8 h9 h10
  have a: "deserialize_ack (take (fst ?sa) (snd ?sa))
             = Some (test_ack_packet\<lparr>a_checksum :=
                  lss_crc16 (take (sizeof_AckPacket - sizeof_uint16)
                    (take (fst ?sa) (snd ?sa)))\<rparr>)"
    by blast
  have e1': "fst ?sm = 72" and e2': "fst ?sc = 201" and e3': "fst ?sa = 202"
    using e1 e2 e3 by (simp_all add: sz sizeofs)
  from m [unfolded e1' vc] c [unfolded e2'] a [unfolded e3'] iv h1 h2 h3 h4 h5 h6 h7 h8 h9 h10 e1'
  show ?thesis
    by simp
qed

text \<open>
  C3. \<open>lss_deserialize_multi_sensor\<close> returns failure exactly when the buffer is shorter
  than \<open>headerSize + valueCount * 5 + 2\<close>, or the sync word is not \<open>0xABCD\<close>, or
  \<open>valueCount > 16\<close>, or the trailing CRC differs from the CRC of header and value entries.
  The sync word and \<open>valueCount\<close> are those at their places in the buffer; a buffer too
  short to hold them is shorter than \<open>headerSize + 2\<close>, so the first disjunct holds whatever
  the value count. On failure the result is the flag \<open>False\<close>, and no value entry and no
  checksum is handed to the caller: those fields of \<^verbatim>\<open>out\<close> are as they were.
\<close>

theorem deserialize_multi_sensor_failure:
  "(let r = lss_deserialize_multi_sensor buf out;
        h = header_of_bytes buf;
        payload_end = sizeof_MultiSensorHeader
                        + unat (h_valueCount h) * sizeof_SensorValuePacket
    in (\<not> fst r) =
         (length buf < payload_end + sizeof_uint16
          \<or> h_syncWord h \<noteq> SYNC_MULTI_SENSOR
          \<or> unat (h_valueCount h) > MAX_SENSOR_VALUES
          \<or> rd_u16 buf payload_end \<noteq> lss_crc16 (take payload_end buf))
       \<and> (\<not> fst r \<longrightarrow> p_values (snd r) = p_values out \<and> p_checksum (snd r) = p_checksum out))"
  using deserialize_multi_sensor_fails_iff [of buf out]
    deserialize_multi_sensor_rejects [of buf out]
  by (simp add: Let_def)

text \<open>
  The too-short buffer of \<^verbatim>\<open>test_multi_sensor_too_short\<close> is rejected, a zero-value frame
  with the right sync word and CRC is accepted, and the same frame with sync word 0 is
  rejected.
\<close>

theorem deserialize_multi_sensor_failure_witness:
  "\<not> fst (lss_deserialize_multi_sensor [0xCD, 0xAB, 0x01, 0x00] zero_packet)
   \<and> fst (lss_deserialize_multi_sensor
           (header_bytes ((p_header zero_packet)\<lparr>h_syncWord := SYNC_MULTI_SENSOR\<rparr>)
            @ u16_le (lss_crc16
                (header_bytes ((p_header zero_packet)\<lparr>h_syncWord := SYNC_MULTI_SENSOR\<rparr>))))
           zero_packet)
   \<and> \<not> fst (lss_deserialize_multi_sensor
           (header_bytes (p_header zero_packet)
            @ u16_le (lss_crc16 (header_bytes (p_header zero_packet))))
           zero_packet)"
proof -
  define h0 where "h0 = (p_header zero_packet)\<lparr>h_syncWord := SYNC_MULTI_SENSOR\<rparr>"
  define hz where "hz = p_header zero_packet"
  have wf0: "wf_header h0" and wfz: "wf_header hz"
    by (simp_all add: h0_def hz_def zero_packet_def wf_header_def)
  have l0: "length (header_bytes h0) = 60" and lz: "length (header_bytes hz) = 60"
    using wf0 wfz by (simp_all add: length_header_bytes)
  have r0: "header_of_bytes (header_bytes h0 @ u16_le x) = h0"
    and rz: "header_of_bytes (header_bytes hz @ u16_le x) = hz" for x
    using wf0 wfz by (simp_all add: header_roundtrip)
  have c0: "rd_u16 (header_bytes h0 @ u16_le x) 60 = x"
    and cz: "rd_u16 (header_bytes hz @ u16_le x) 60 = x" for x
    using rd_u16_at [of "header_bytes h0" x "[]"] rd_u16_at [of "header_bytes hz" x "[]"]
    by (simp_all add: l0 lz)
  have v0: "unat (h_valueCount h0) = 0" "h_syncWord h0 = SYNC_MULTI_SENSOR"
    and vz: "unat (h_valueCount hz) = 0" "h_syncWord hz \<noteq> SYNC_MULTI_SENSOR"
    by (simp_all add: h0_def hz_def zero_packet_def SYNC_MULTI_SENSOR_def)
  have a: "\<not> fst (lss_deserialize_multi_sensor [0xCD, 0xAB, 0x01, 0x00] zero_packet)"
    using deserialize_multi_sensor_failure [of "[0xCD, 0xAB, 0x01, 0x00]" zero_packet]
    by (simp add: Let_def sizeofs)
  have b: "fst (lss_deserialize_multi_sensor
                  (header_bytes h0 @ u16_le (lss_crc16 (header_bytes h0))) zero_packet)"
    using deserialize_multi_sensor_failure
      [of "header_bytes h0 @ u16_le (lss_crc16 (header_bytes h0))" zero_packet]
    by (simp add: Let_def sizeofs r0 c0 v0 l0 MAX_SENSOR_VALUES_def)
  have c: "\<not> fst (lss_deserialize_multi_sensor
                  (header_bytes hz @ u16_le (lss_crc16 (header_bytes hz))) zero_packet)"
    using deserialize_multi_sensor_failure
      [of "header_bytes hz @ u16_le (lss_crc16 (header_bytes hz))" zero_packet]
    by (simp add: Let_def sizeofs rz cz vz lz MAX_SENSOR_VALUES_def)
  from a b c show ?thesis
    by (simp add: h0_def hz_def)
qed

section \<open>Lemmas about the route table\<close>

lemma find_route_from_lower: "find_route_from es d i = -1 \<or> int i \<le> find_route_from es d i"
proof (induction es arbitrary: i)
  case Nil
  then show ?case by simp
next
  case (Cons e es)
  from Cons [of "i + 1"] show ?case by auto
qed

lemma find_route_from_upd_hit:
  assumes "r_valid e" and "r_destId e = d" and "0 \<le> find_route_from es d i"
  shows "nat (find_route_from es d i) - i < length es \<and>
         find_route_from (es[nat (find_route_from es d i) - i := e]) d i = find_route_from es d i"
  using assms(3)
proof (induction es arbitrary: i)
  case Nil
  then show ?case by simp
next
  case (Cons x xs)
  show ?case
  proof (cases "r_valid x \<and> r_destId x = d")
    case True
    then show ?thesis using assms(1,2) by simp
  next
    case False
    then have eq: "find_route_from (x # xs) d i = find_route_from xs d (Suc i)"
      by auto
    with Cons.prems have nn: "0 \<le> find_route_from xs d (Suc i)"
      by simp
    define j where "j = nat (find_route_from xs d (Suc i)) - Suc i"
    from find_route_from_lower [of xs d "Suc i"] nn
    have idx: "nat (find_route_from xs d (Suc i)) - i = Suc j"
      unfolding j_def by linarith
    from Cons.IH [OF nn]
    have ih: "j < length xs" "find_route_from (xs[j := e]) d (Suc i) = find_route_from xs d (Suc i)"
      by (simp_all add: j_def)
    have "find_route_from ((x # xs)[Suc j := e]) d i = find_route_from xs d (Suc i)"
      using False ih(2) by auto
    with ih(1) show ?thesis
      by (simp only: eq idx) simp
  qed
qed

lemma find_route_from_upd_miss:
  assumes "r_valid e" and "r_destId e = d"
  shows "find_route_from es d i < 0 \<Longrightarrow> k < length es \<Longrightarrow>
           find_route_from (es[k := e]) d i = int (i + k)"
proof (induction es arbitrary: i k)
  case Nil
  then show ?case by simp
next
  case (Cons x xs)
  from Cons.prems(1) have nomatch: "\<not> (r_valid x \<and> r_destId x = d)"
    and rest: "find_route_from xs d (i + 1) < 0"
    by (auto split: if_splits)
  show ?case
  proof (cases k)
    case 0
    then show ?thesis using assms by simp
  next
    case (Suc j)
    with Cons.prems(2) have "j < length xs" by simp
    from Cons.IH [OF rest this] nomatch Suc show ?thesis
      by simp
  qed
qed

lemma first_invalid_from_range:
  "first_invalid_from es i = Some j \<Longrightarrow> i \<le> j \<and> j < i + length es"
proof (induction es arbitrary: i)
  case Nil
  then show ?case by simp
next
  case (Cons e es)
  then show ?case by (fastforce split: if_splits)
qed

lemma oldest_from_range: "oldest < i \<Longrightarrow> oldest_from es i oldest ts < i + length es"
proof (induction es arbitrary: i oldest ts)
  case Nil
  then show ?case by simp
next
  case (Cons e es)
  have a: "oldest_from es (i + 1) i (r_lastUpdated e) < (i + 1) + length es"
    by (rule Cons.IH) simp
  have b: "oldest_from es (i + 1) oldest ts < (i + 1) + length es"
    using Cons.prems by (intro Cons.IH) simp
  from a b show ?case by simp
qed

lemma alloc_slot_range: "routes r \<noteq> [] \<Longrightarrow> alloc_slot r < length (routes r)"
proof -
  assume ne: "routes r \<noteq> []"
  show ?thesis
  proof (cases "first_invalid_from (routes r) 0")
    case None
    have "oldest_from (drop 1 (routes r)) 1 0 (r_lastUpdated (routes r ! 0))
            < 1 + length (drop 1 (routes r))"
      by (rule oldest_from_range) simp
    with ne None show ?thesis
      by (cases "routes r") (simp_all add: alloc_slot_def)
  next
    case (Some j)
    with first_invalid_from_range [OF Some] show ?thesis
      by (simp add: alloc_slot_def)
  qed
qed

lemma next_hop_for_update_route:
  assumes ne: "routes r \<noteq> []"
  shows "next_hop_for (update_route r now d nh hc) d = nh"
proof -
  define e where "e = \<lparr> r_destId = d, r_nextHop = nh, r_hopCount = hc,
                         r_lastUpdated = now, r_valid = True \<rparr>"
  have ev: "r_valid e" and ed: "r_destId e = d" and en: "r_nextHop e = nh"
    by (simp_all add: e_def)
  show ?thesis
  proof (cases "find_route_from (routes r) d 0 < 0")
    case True
    define k where "k = alloc_slot r"
    have k: "k < length (routes r)"
      unfolding k_def using ne by (rule alloc_slot_range)
    have upd: "routes (update_route r now d nh hc) = (routes r)[k := e]"
      using True by (simp add: update_route_def find_route_def Let_def e_def k_def)
    have "find_route_from ((routes r)[k := e]) d 0 = int k"
      using find_route_from_upd_miss [OF ev ed True k] by simp
    then show ?thesis
      using k by (simp add: next_hop_for_def find_route_def Let_def upd ev en)
  next
    case False
    define j where "j = find_route_from (routes r) d 0"
    have nn: "0 \<le> j"
      using False by (simp add: j_def)
    have upd: "routes (update_route r now d nh hc) = (routes r)[nat j := e]"
      using False by (simp add: update_route_def find_route_def Let_def e_def j_def)
    from find_route_from_upd_hit [OF ev ed, of "routes r" 0] nn
    have k: "nat j < length (routes r)"
      and f: "find_route_from ((routes r)[nat j := e]) d 0 = j"
      by (simp_all add: j_def)
    show ?thesis
      using k nn by (simp add: next_hop_for_def find_route_def Let_def upd f ev en)
  qed
qed

lemma length_routes_update_route [simp]:
  "length (routes (update_route r now d nh hc)) = length (routes r)"
  by (simp add: update_route_def Let_def)

lemma node_id_update_route [simp]: "node_id (update_route r now d nh hc) = node_id r"
  by (simp add: update_route_def Let_def)

lemma last_beacon_update_route [simp]: "last_beacon (update_route r now d nh hc) = last_beacon r"
  by (simp add: update_route_def Let_def)

lemma last_beacon_evict [simp]: "last_beacon (evict_stale_routes r now) = last_beacon r"
  by (simp add: evict_stale_routes_def)

lemma mesh_header_of_take:
  "sizeof_MeshHeader \<le> length raw \<Longrightarrow>
     mesh_header_of_bytes (take sizeof_MeshHeader raw) = mesh_header_of_bytes raw"
  by (simp add: mesh_header_of_bytes_def sizeof_MeshHeader_def rd_u16_def)

section \<open>Claims about the mesh router\<close>

text \<open>
  C5. A frame shorter than the mesh header is dropped. A DATA frame that holds a header is
  dropped when its \<open>hopCount\<close> is 5 (\<open>MESH_MAX_HOPS\<close>) or more; otherwise its payload is
  delivered to the upper layer if and only if its \<open>destId\<close> is the router's node id or 255,
  and the payload delivered is the frame without its header. A DATA frame for another node
  is not delivered: the call returns \<open>False\<close> and writes no payload.
\<close>

theorem receive_data_frame:
  "(length raw < sizeof_MeshHeader \<longrightarrow> receive r now raw = (False, None, r))
   \<and> (sizeof_MeshHeader \<le> length raw
        \<and> m_packetType (mesh_header_of_bytes raw) = MESH_DATA \<longrightarrow>
       (let hdr = mesh_header_of_bytes raw; res = receive r now raw
        in if 5 \<le> unat (m_hopCount hdr) then res = (False, None, r)
           else (fst res \<longleftrightarrow> (m_destId hdr = node_id r \<or> m_destId hdr = 255))
                \<and> fst (snd res)
                    = (if fst res then Some (drop sizeof_MeshHeader raw) else None)))"
proof (intro conjI impI)
  assume "length raw < sizeof_MeshHeader"
  then show "receive r now raw = (False, None, r)"
    by (simp add: receive_def)
next
  assume a: "sizeof_MeshHeader \<le> length raw
               \<and> m_packetType (mesh_header_of_bytes raw) = MESH_DATA"
  then have hd: "mesh_header_of_bytes (take sizeof_MeshHeader raw) = mesh_header_of_bytes raw"
    by (simp add: mesh_header_of_take)
  have hop: "(MESH_MAX_HOPS \<le> h) = (5 \<le> unat h)" for h
    by (simp add: MESH_MAX_HOPS_def word_le_nat_alt)
  from a show "let hdr = mesh_header_of_bytes raw; res = receive r now raw
        in if 5 \<le> unat (m_hopCount hdr) then res = (False, None, r)
           else (fst res \<longleftrightarrow> (m_destId hdr = node_id r \<or> m_destId hdr = 255))
                \<and> fst (snd res)
                    = (if fst res then Some (drop sizeof_MeshHeader raw) else None)"
    by (simp add: receive_def Let_def hd hop MESH_DATA_def MESH_NEIGHBOR_BEACON_def
        MESH_ROUTE_REQUEST_def)
qed

lemma make_mesh_frame_header:
  "mesh_header_of_bytes (make_mesh_frame t s d h l p)
     = \<lparr> m_packetType = t, m_sourceId = s, m_destId = d, m_nextHop = d,
         m_prevHop = s, m_hopCount = h, m_ttl = l, m_sequenceNum = 1 \<rparr>"
  by (simp add: make_mesh_frame_def mesh_header_of_bytes_def mesh_header_bytes_def
      rd_u16_def u16_le_def)

lemma length_make_mesh_frame: "length (make_mesh_frame t s d h l p) = 9 + length p"
  by (simp add: make_mesh_frame_def mesh_header_bytes_def)

lemma drop_make_mesh_frame: "drop 9 (make_mesh_frame t s d h l p) = p"
  by (simp add: make_mesh_frame_def mesh_header_bytes_def)

text \<open>
  The frames of test\_mesh at the router of node 5: for this node (delivered, with its
  payload), for node 3 (not delivered), over the hop limit (dropped), broadcast
  (delivered), and the two-byte frame at node 1 (dropped).
\<close>

theorem receive_data_frame_witness:
  "fst (receive (new_MeshRouter 5 True) 0 (make_mesh_frame MESH_DATA 1 5 0 5 [0xAA, 0xBB]))
   \<and> fst (snd (receive (new_MeshRouter 5 True) 0
                  (make_mesh_frame MESH_DATA 1 5 0 5 [0xAA, 0xBB]))) = Some [0xAA, 0xBB]
   \<and> \<not> fst (receive (new_MeshRouter 5 True) 0 (make_mesh_frame MESH_DATA 1 3 0 5 []))
   \<and> \<not> fst (receive (new_MeshRouter 5 True) 0 (make_mesh_frame MESH_DATA 1 5 5 1 []))
   \<and> fst (receive (new_MeshRouter 5 True) 0 (make_mesh_frame MESH_DATA 1 255 0 5 [0x01]))
   \<and> \<not> fst (receive (new_MeshRouter 1 True) 0 [0, 0])"
proof -
  have n: "node_id (new_MeshRouter 5 True) = 5"
    by (simp add: new_MeshRouter_def)
  have a: "fst (receive (new_MeshRouter 5 True) 0 (make_mesh_frame MESH_DATA 1 5 0 5 [0xAA, 0xBB]))
           \<and> fst (snd (receive (new_MeshRouter 5 True) 0
                  (make_mesh_frame MESH_DATA 1 5 0 5 [0xAA, 0xBB]))) = Some [0xAA, 0xBB]"
    using receive_data_frame
      [of "make_mesh_frame MESH_DATA 1 5 0 5 [0xAA, 0xBB]" "new_MeshRouter 5 True" 0]
    by (simp add: Let_def make_mesh_frame_header length_make_mesh_frame drop_make_mesh_frame
        sizeof_MeshHeader_def n)
  have b: "\<not> fst (receive (new_MeshRouter 5 True) 0 (make_mesh_frame MESH_DATA 1 3 0 5 []))"
    using receive_data_frame [of "make_mesh_frame MESH_DATA 1 3 0 5 []" "new_MeshRouter 5 True" 0]
    by (simp add: Let_def make_mesh_frame_header length_make_mesh_frame
        sizeof_MeshHeader_def n)
  have c: "\<not> fst (receive (new_MeshRouter 5 True) 0 (make_mesh_frame MESH_DATA 1 5 5 1 []))"
    using receive_data_frame [of "make_mesh_frame MESH_DATA 1 5 5 1 []" "new_MeshRouter 5 True" 0]
    by (simp add: Let_def make_mesh_frame_header length_make_mesh_frame
        sizeof_MeshHeader_def n)
  have d: "fst (receive (new_MeshRouter 5 True) 0 (make_mesh_frame MESH_DATA 1 255 0 5 [0x01]))"
    using receive_data_frame
      [of "make_mesh_frame MESH_DATA 1 255 0 5 [0x01]" "new_MeshRouter 5 True" 0]
    by (simp add: Let_def make_mesh_frame_header length_make_mesh_frame
        sizeof_MeshHeader_def n)
  have e: "\<not> fst (receive (new_MeshRouter 1 True) 0 [0, 0])"
    using receive_data_frame [of "[0, 0]" "new_MeshRouter 1 True" 0]
    by (simp add: sizeof_MeshHeader_def)
  from a b c d e show ?thesis
    by simp
qed

text \<open>
  C6. When a router receives a neighbour beacon from source \<open>s\<close> whose \<open>hopCount\<close> is
  below the hop limit, nothing is delivered to the upper layer, and afterwards
  \<open>next_hop_for s = s\<close>.
\<close>

theorem receive_beacon_learns_neighbour:
  assumes "wf_router r"
    and "sizeof_MeshHeader \<le> length raw"
    and "m_packetType (mesh_header_of_bytes raw) = MESH_NEIGHBOR_BEACON"
    and "unat (m_hopCount (mesh_header_of_bytes raw)) < 5"
  shows "fst (receive r now raw) = False
         \<and> fst (snd (receive r now raw)) = None
         \<and> next_hop_for (snd (snd (receive r now raw))) (m_sourceId (mesh_header_of_bytes raw))
             = m_sourceId (mesh_header_of_bytes raw)"
proof -
  define hdr where "hdr = mesh_header_of_bytes raw"
  define r1 where
    "r1 = (if m_prevHop hdr \<noteq> 0 \<and> m_prevHop hdr \<noteq> 255
           then update_route r now (m_sourceId hdr) (m_prevHop hdr) (m_hopCount hdr) else r)"
  have hd: "mesh_header_of_bytes (take sizeof_MeshHeader raw) = hdr"
    using assms(2) by (simp add: mesh_header_of_take hdr_def)
  have hop: "\<not> MESH_MAX_HOPS \<le> m_hopCount hdr"
    using assms(4) by (simp add: MESH_MAX_HOPS_def word_le_nat_alt hdr_def)
  have "length (routes r1) = 20"
    using assms(1) by (simp add: r1_def wf_router_def MESH_MAX_ROUTES_def)
  then have ne: "routes r1 \<noteq> []"
    by auto
  have res: "receive r now raw
               = (False, None, update_route r1 now (m_sourceId hdr) (m_sourceId hdr) 1)"
    using assms(2) assms(3) hop
    by (simp add: receive_def Let_def hd r1_def hdr_def [symmetric])
  show ?thesis
    unfolding hdr_def [symmetric] res
    using next_hop_for_update_route [OF ne] by simp
qed

text \<open>\<^verbatim>\<open>test_receive_beacon_not_for_node\<close>: node 5 hears the beacon of node 2.\<close>

theorem receive_beacon_learns_neighbour_witness:
  "wf_router (new_MeshRouter 5 True)
   \<and> \<not> fst (receive (new_MeshRouter 5 True) 0
              (make_mesh_frame MESH_NEIGHBOR_BEACON 2 255 0 1 []))
   \<and> next_hop_for (snd (snd (receive (new_MeshRouter 5 True) 0
              (make_mesh_frame MESH_NEIGHBOR_BEACON 2 255 0 1 [])))) 2 = 2"
proof -
  have w: "wf_router (new_MeshRouter 5 True)"
    by (simp add: wf_router_def new_MeshRouter_def)
  have l: "sizeof_MeshHeader \<le> length (make_mesh_frame MESH_NEIGHBOR_BEACON 2 255 0 1 [])"
    by (simp add: length_make_mesh_frame sizeof_MeshHeader_def)
  have t: "m_packetType (mesh_header_of_bytes (make_mesh_frame MESH_NEIGHBOR_BEACON 2 255 0 1 []))
             = MESH_NEIGHBOR_BEACON"
    by (simp add: make_mesh_frame_header)
  have h: "unat (m_hopCount (mesh_header_of_bytes
              (make_mesh_frame MESH_NEIGHBOR_BEACON 2 255 0 1 []))) < 5"
    by (simp add: make_mesh_frame_header)
  from receive_beacon_learns_neighbour [OF w l t h, of 0] w show ?thesis
    by (simp add: make_mesh_frame_header)
qed

lemma tick_not_due:
  "now - last_beacon r < MESH_BEACON_INTERVAL \<Longrightarrow>
     tick r now buf = (0, buf, evict_stale_routes r now)"
  by (simp add: tick_def Let_def)

lemma tick_due_small:
  "\<not> now - last_beacon r < MESH_BEACON_INTERVAL \<Longrightarrow> length buf < sizeof_MeshHeader \<Longrightarrow>
     tick r now buf = (0, buf, (evict_stale_routes r now)\<lparr>last_beacon := now\<rparr>)"
  by (simp add: tick_def Let_def)

lemma tick_due_large:
  "\<not> now - last_beacon r < MESH_BEACON_INTERVAL \<Longrightarrow> sizeof_MeshHeader \<le> length buf \<Longrightarrow>
     fst (tick r now buf) = sizeof_MeshHeader
     \<and> last_beacon (snd (snd (tick r now buf))) = now"
  by (simp add: tick_def Let_def next_seq_def)

lemma tick_nonzero_stamp:
  assumes "fst (tick r now buf) \<noteq> 0"
  shows "last_beacon (snd (snd (tick r now buf))) = now"
proof (cases "now - last_beacon r < MESH_BEACON_INTERVAL")
  case True
  with assms show ?thesis by (simp add: tick_not_due)
next
  case False
  show ?thesis
  proof (cases "length buf < sizeof_MeshHeader")
    case True
    with False assms show ?thesis by (simp add: tick_due_small)
  next
    case False
    with \<open>\<not> now - last_beacon r < MESH_BEACON_INTERVAL\<close> show ?thesis
      by (simp add: tick_due_large)
  qed
qed

text \<open>
  C8. After a call of \<open>tick\<close> at time \<open>t1\<close> that produced a beacon (returned a non-zero
  size), a call at a time \<open>t2\<close> less than the beacon interval later returns zero bytes.
  \<open>r2\<close> is the router at the second call: any state whose beacon timestamp is the one the
  first call left. The second call leaves the timestamp as it is, so the same holds for
  every further call within the interval. Elapsed time is the unsigned 32-bit difference
  of the two clock values, as in the source.
\<close>

theorem tick_beacon_once_per_interval:
  assumes "fst (tick r t1 buf1) \<noteq> 0"
    and "last_beacon r2 = last_beacon (snd (snd (tick r t1 buf1)))"
    and "t2 - t1 < MESH_BEACON_INTERVAL"
  shows "fst (tick r2 t2 buf2) = 0
         \<and> last_beacon (snd (snd (tick r2 t2 buf2))) = last_beacon r2"
proof -
  have "last_beacon r2 = t1"
    using assms(1) assms(2) by (simp add: tick_nonzero_stamp)
  with assms(3) have "t2 - last_beacon r2 < MESH_BEACON_INTERVAL"
    by simp
  then show ?thesis
    by (simp add: tick_not_due)
qed

text \<open>\<^verbatim>\<open>test_tick_no_duplicate_beacon\<close>: a beacon at 30001 ms, none at 30101 ms.\<close>

theorem tick_beacon_once_per_interval_witness:
  "fst (tick (new_MeshRouter 1 True) 30001 (replicate 64 0)) = 9
   \<and> fst (tick (snd (snd (tick (new_MeshRouter 1 True) 30001 (replicate 64 0)))) 30101
            (replicate 64 0)) = 0"
proof -
  have due: "\<not> (30001 :: u32) - last_beacon (new_MeshRouter 1 True) < MESH_BEACON_INTERVAL"
    by (simp add: new_MeshRouter_def MESH_BEACON_INTERVAL_def)
  have big: "sizeof_MeshHeader \<le> length (replicate 64 (0 :: u8))"
    by (simp add: sizeof_MeshHeader_def)
  have a: "fst (tick (new_MeshRouter 1 True) 30001 (replicate 64 0)) = 9"
    using tick_due_large [OF due big] by (simp add: sizeof_MeshHeader_def)
  then have nz: "fst (tick (new_MeshRouter 1 True) 30001 (replicate 64 0)) \<noteq> 0"
    by simp
  have d: "(30101 :: u32) - 30001 < MESH_BEACON_INTERVAL"
    by (simp add: MESH_BEACON_INTERVAL_def)
  from tick_beacon_once_per_interval [OF nz refl d, of "replicate 64 0"] a show ?thesis
    by simp
qed

text \<open>
  C9. When a beacon is due and \<open>tick\<close> is given a buffer smaller than the mesh header, it
  returns 0 and still sets the beacon timestamp to the current time; a call that follows
  within the beacon interval returns 0 too, also with a buffer that is large enough. With
  the large buffer in the first place, the call would have returned the 9-byte beacon.
\<close>

theorem tick_small_buffer_loses_beacon:
  assumes "\<not> now - last_beacon r < MESH_BEACON_INTERVAL"
    and "length small < sizeof_MeshHeader"
    and "sizeof_MeshHeader \<le> length large"
    and "now2 - now < MESH_BEACON_INTERVAL"
  shows "fst (tick r now small) = 0
         \<and> last_beacon (snd (snd (tick r now small))) = now
         \<and> fst (tick (snd (snd (tick r now small))) now2 large) = 0
         \<and> fst (tick r now large) = sizeof_MeshHeader"
  using assms by (simp add: tick_due_small tick_not_due tick_due_large)

text \<open>A fresh router at 30001 ms, first with an 8-byte buffer, then with 64 bytes.\<close>

theorem tick_small_buffer_loses_beacon_witness:
  "fst (tick (new_MeshRouter 1 True) 30001 (replicate 8 0)) = 0
   \<and> last_beacon (snd (snd (tick (new_MeshRouter 1 True) 30001 (replicate 8 0)))) = 30001
   \<and> fst (tick (snd (snd (tick (new_MeshRouter 1 True) 30001 (replicate 8 0)))) 30001
            (replicate 64 0)) = 0
   \<and> fst (tick (new_MeshRouter 1 True) 30001 (replicate 64 0)) = 9"
proof -
  have due: "\<not> (30001 :: u32) - last_beacon (new_MeshRouter 1 True) < MESH_BEACON_INTERVAL"
    by (simp add: new_MeshRouter_def MESH_BEACON_INTERVAL_def)
  have small: "length (replicate 8 (0 :: u8)) < sizeof_MeshHeader"
    by (simp add: sizeof_MeshHeader_def)
  have big: "sizeof_MeshHeader \<le> length (replicate 64 (0 :: u8))"
    by (simp add: sizeof_MeshHeader_def)
  have d: "(30001 :: u32) - 30001 < MESH_BEACON_INTERVAL"
    by (simp add: MESH_BEACON_INTERVAL_def)
  from tick_small_buffer_loses_beacon [OF due small big d] show ?thesis
    by (simp add: sizeof_MeshHeader_def)
qed

section \<open>Lemmas about the command handler\<close>

lemmas cmd_codes = CMD_PING_def CMD_GET_CONFIG_def CMD_SET_INTERVAL_def CMD_SET_LOCATION_def
  CMD_SET_TEMP_THRESH_def CMD_SET_BATTERY_THRESH_def CMD_SET_MESH_CONFIG_def CMD_RESTART_def
  CMD_FACTORY_RESET_def CMD_SET_LORA_PARAMS_def CMD_TIME_SYNC_def CMD_SENSOR_ANNOUNCE_def
  CMD_BASE_WELCOME_def CMD_ACK_def CMD_NACK_def

lemma build_ack_frame:
  assumes sz: "sizeof_AckPacket \<le> length buf"
  shows "fst (lss_build_ack t sid sq sc buf) = sizeof_AckPacket
         \<and> crc_verifies (take sizeof_AckPacket (snd (lss_build_ack t sid sq sc buf)))
         \<and> ack_of_bytes (take sizeof_AckPacket (snd (lss_build_ack t sid sq sc buf)))
             = \<lparr> a_syncWord = SYNC_COMMAND, a_commandType = t, a_sensorId = sid,
                 a_sequenceNumber = sq, a_statusCode = sc, a_dataLength = 0,
                 a_pad = 0, a_data = replicate 192 0,
                 a_checksum = lss_crc16 (take (sizeof_AckPacket - sizeof_uint16)
                                (snd (lss_build_ack t sid sq sc buf))) \<rparr>"
proof -
  define a where
    "a = \<lparr> a_syncWord = SYNC_COMMAND, a_commandType = t, a_sensorId = sid,
           a_sequenceNumber = sq, a_statusCode = sc, a_dataLength = 0,
           a_pad = 0, a_data = replicate 192 0, a_checksum = 0 \<rparr>"
  define body where "body = take 200 (ack_bytes a)"
  have wf: "wf_ack a"
    by (simp add: a_def wf_ack_def)
  have lb: "length body = 200"
    by (simp add: body_def a_def ack_bytes_def)
  have s: "lss_build_ack t sid sq sc buf
             = (sizeof_AckPacket, (body @ u16_le (lss_crc16 body)) @ drop 202 buf)"
    using serialize_ack_frame [OF wf sz] by (simp add: lss_build_ack_def a_def body_def)
  have tk: "take sizeof_AckPacket ((body @ u16_le (lss_crc16 body)) @ drop 202 buf)
              = body @ u16_le (lss_crc16 body)"
    by (simp add: sizeofs lb)
  have tb: "take (sizeof_AckPacket - sizeof_uint16) ((body @ u16_le (lss_crc16 body)) @ drop 202 buf)
              = body"
    by (simp add: sizeofs lb)
  have ab: "ack_of_bytes (body @ u16_le (lss_crc16 body)) = a\<lparr>a_checksum := lss_crc16 body\<rparr>"
    unfolding body_def by (rule ack_of_frame [OF wf])
  show ?thesis
    unfolding s fst_conv snd_conv tk tb ab
    by (simp add: crc_verifies_append a_def)
qed



lemma set_location_result:
  assumes "c_commandType pkt = CMD_SET_LOCATION"
  shows "handle_command pkt st mesh buf =
           \<lparr> hc_ret = fst (lss_build_ack CMD_ACK (nodeId (cfg st)) (c_sequenceNumber pkt) 0 buf),
             hc_ack_buf = snd (lss_build_ack CMD_ACK (nodeId (cfg st)) (c_sequenceNumber pkt) 0 buf),
             hc_store = snd (save (st\<lparr>cfg := set_location pkt (cfg st)\<rparr>)),
             hc_mesh = mesh, hc_restarted = False \<rparr>"
  using assms
  by (simp add: handle_command_def Let_def cmd_codes ack_reply_def split: prod.splits)

lemma cfg_save [simp]: "cfg (snd (save st)) = cfg st"
  by (simp add: save_def Let_def)


lemma upd_last_replicate: "(replicate n x @ [y])[n := x] = replicate (Suc n) x"
  using list_update_length [of "replicate n x" y "[]" x]
  by (simp add: replicate_append_same)

lemma location_default_store: "location (cfg default_store) = [0x55, 0x6E, 0x6B, 0x6E, 0x6F, 0x77, 0x6E] @ replicate 25 0"
  by (simp add: default_store_def fill_defaults_def write_at_def c_strncpy_def c_str_def
      LOCATION_MAXLEN_def upd_last_replicate)

lemma zone_default_store: "zone (cfg default_store) = [0x64, 0x65, 0x66, 0x61, 0x75, 0x6C, 0x74] @ replicate 9 0"
  by (simp add: default_store_def fill_defaults_def write_at_def c_strncpy_def c_str_def
      ZONE_MAXLEN_def upd_last_replicate)

lemma set_location_beyond_length_location:
  "location (set_location (make_command CMD_SET_LOCATION 1 9 0 [0x53, 0x68, 0x65, 0x64])
               (cfg default_store)) = [0x53, 0x68, 0x65, 0x64] @ replicate 28 0"
  "location (set_location (make_command CMD_SET_LOCATION 1 9 0 []) (cfg default_store))
     = replicate 32 0"
  by (simp_all add: set_location_def Let_def make_command_def location_default_store
      zone_default_store write_at_def c_strncpy_def c_strnlen_def c_str_def
      LOCATION_MAXLEN_def ZONE_MAXLEN_def upd_last_replicate word_le_nat_alt
      word_less_nat_alt unsigned_minus_1_eq_mask mask_eq_exp_minus_1)

lemma set_location_beyond_length_zone:
  "zone (set_location (make_command CMD_SET_LOCATION 1 9 3 [0x41, 0x00, 0x42, 0x43, 0x44])
               (cfg default_store)) = [0x42, 0x43, 0x44] @ replicate 13 0"
  "zone (set_location (make_command CMD_SET_LOCATION 1 9 3 [0x41, 0x00, 0x42])
               (cfg default_store)) = [0x42] @ replicate 15 0"
  by (simp_all add: set_location_def Let_def make_command_def location_default_store
      zone_default_store write_at_def c_strncpy_def c_strnlen_def c_str_def
      LOCATION_MAXLEN_def ZONE_MAXLEN_def upd_last_replicate word_le_nat_alt
      word_less_nat_alt unsigned_minus_1_eq_mask mask_eq_exp_minus_1)

section \<open>Claims about the command handler\<close>






text \<open>
  C10. For a SET\_LOCATION command and an ACK buffer that holds an \<^verbatim>\<open>AckPacket\<close>, the
  reply is a CMD\_ACK with status 0 whatever \<open>dataLength\<close> is, and the stored location is
  the string at the start of the data area (at most 31 bytes, NUL padded), with no regard
  to \<open>dataLength\<close>. Bytes beyond the first \<open>dataLength\<close> bytes reach the configuration: with
  \<open>dataLength = 0\<close> the location becomes "Shed" or empty depending on the data area; with
  \<open>dataLength = 3\<close> and the same first three bytes ("A", NUL, "B") the zone becomes "BCD"
  or "B" depending on the bytes that follow.
\<close>

theorem handle_command_set_location:
  "(c_commandType pkt = CMD_SET_LOCATION \<and> sizeof_AckPacket \<le> length ack_buf \<longrightarrow>
      (let res = handle_command pkt st mesh ack_buf;
           reply = ack_of_bytes (take (hc_ret res) (hc_ack_buf res))
       in hc_ret res = sizeof_AckPacket
          \<and> a_commandType reply = CMD_ACK
          \<and> a_statusCode reply = 0
          \<and> location (cfg (hc_store res))
              = (write_at (location (cfg st)) 0
                   (c_strncpy (c_data pkt) (LOCATION_MAXLEN - 1)))[LOCATION_MAXLEN - 1 := 0]))
   \<and> c_dataLength (make_command CMD_SET_LOCATION 1 9 0 [0x53, 0x68, 0x65, 0x64]) = 0
   \<and> location (cfg (hc_store (handle_command
         (make_command CMD_SET_LOCATION 1 9 0 [0x53, 0x68, 0x65, 0x64])
         default_store mesh ack_buf))) = [0x53, 0x68, 0x65, 0x64] @ replicate 28 0
   \<and> location (cfg (hc_store (handle_command
         (make_command CMD_SET_LOCATION 1 9 0 [])
         default_store mesh ack_buf))) = replicate 32 0
   \<and> take 3 (c_data (make_command CMD_SET_LOCATION 1 9 3 [0x41, 0x00, 0x42, 0x43, 0x44]))
       = take 3 (c_data (make_command CMD_SET_LOCATION 1 9 3 [0x41, 0x00, 0x42]))
   \<and> zone (cfg (hc_store (handle_command
         (make_command CMD_SET_LOCATION 1 9 3 [0x41, 0x00, 0x42, 0x43, 0x44])
         default_store mesh ack_buf))) = [0x42, 0x43, 0x44] @ replicate 13 0
   \<and> zone (cfg (hc_store (handle_command
         (make_command CMD_SET_LOCATION 1 9 3 [0x41, 0x00, 0x42])
         default_store mesh ack_buf))) = [0x42] @ replicate 15 0"
proof -
  have gen: "c_commandType pkt = CMD_SET_LOCATION \<and> sizeof_AckPacket \<le> length ack_buf \<longrightarrow>
      (let res = handle_command pkt st mesh ack_buf;
           reply = ack_of_bytes (take (hc_ret res) (hc_ack_buf res))
       in hc_ret res = sizeof_AckPacket
          \<and> a_commandType reply = CMD_ACK
          \<and> a_statusCode reply = 0
          \<and> location (cfg (hc_store res))
              = (write_at (location (cfg st)) 0
                   (c_strncpy (c_data pkt) (LOCATION_MAXLEN - 1)))[LOCATION_MAXLEN - 1 := 0])"
  proof
    assume a: "c_commandType pkt = CMD_SET_LOCATION \<and> sizeof_AckPacket \<le> length ack_buf"
    then have t: "c_commandType pkt = CMD_SET_LOCATION" and b: "sizeof_AckPacket \<le> length ack_buf"
      by simp_all
    note hc = set_location_result [OF t, of st mesh ack_buf]
    note ba = build_ack_frame [OF b, of CMD_ACK "nodeId (cfg st)" "c_sequenceNumber pkt" 0]
    have loc: "location (set_location pkt (cfg st))
                 = (write_at (location (cfg st)) 0
                      (c_strncpy (c_data pkt) (LOCATION_MAXLEN - 1)))[LOCATION_MAXLEN - 1 := 0]"
      by (simp add: set_location_def Let_def)
    from ba show "let res = handle_command pkt st mesh ack_buf;
           reply = ack_of_bytes (take (hc_ret res) (hc_ack_buf res))
       in hc_ret res = sizeof_AckPacket
          \<and> a_commandType reply = CMD_ACK
          \<and> a_statusCode reply = 0
          \<and> location (cfg (hc_store res))
              = (write_at (location (cfg st)) 0
                   (c_strncpy (c_data pkt) (LOCATION_MAXLEN - 1)))[LOCATION_MAXLEN - 1 := 0]"
      unfolding Let_def hc by (simp add: loc)
  qed
  have ty: "c_commandType (make_command CMD_SET_LOCATION t s d p) = CMD_SET_LOCATION" for t s d p
    by (simp add: make_command_def)
  have st: "hc_store (handle_command (make_command CMD_SET_LOCATION t s d p) default_store mesh ack_buf)
              = snd (save (default_store\<lparr>cfg := set_location (make_command CMD_SET_LOCATION t s d p)
                                                   (cfg default_store)\<rparr>))" for t s d p
    by (simp add: set_location_result [OF ty])
  have dl: "c_dataLength (make_command CMD_SET_LOCATION 1 9 0 [0x53, 0x68, 0x65, 0x64]) = 0"
    by (simp add: make_command_def)
  have tk: "take 3 (c_data (make_command CMD_SET_LOCATION 1 9 3 [0x41, 0x00, 0x42, 0x43, 0x44]))
       = take 3 (c_data (make_command CMD_SET_LOCATION 1 9 3 [0x41, 0x00, 0x42]))"
    by (simp add: make_command_def)
  have sel: "cfg (default_store\<lparr>cfg := c\<rparr>) = c" for c
    by simp
  show ?thesis
    by (intro conjI gen dl tk)
       (simp_all only: st cfg_save sel set_location_beyond_length_location
          set_location_beyond_length_zone)
qed

text \<open>A SET\_LOCATION command with \<open>dataLength = 0\<close> is acknowledged.\<close>

theorem handle_command_set_location_witness:
  "c_commandType (make_command CMD_SET_LOCATION 1 9 0 []) = CMD_SET_LOCATION
   \<and> sizeof_AckPacket \<le> length (replicate 255 (0 :: u8))
   \<and> hc_ret (handle_command (make_command CMD_SET_LOCATION 1 9 0 []) default_store
               (new_MeshRouter 1 True) (replicate 255 0)) = 202
   \<and> a_commandType (ack_of_bytes (take 202 (hc_ack_buf
        (handle_command (make_command CMD_SET_LOCATION 1 9 0 []) default_store
               (new_MeshRouter 1 True) (replicate 255 0))))) = CMD_ACK"
proof -
  let ?p = "make_command CMD_SET_LOCATION 1 9 0 []"
  let ?r = "handle_command ?p default_store (new_MeshRouter 1 True) (replicate 255 0)"
  have t: "c_commandType ?p = CMD_SET_LOCATION"
    by (simp add: make_command_def)
  have b: "sizeof_AckPacket \<le> length (replicate 255 (0 :: u8))"
    by (simp add: sizeofs)
  from handle_command_set_location
    [of ?p "replicate 255 0" default_store "new_MeshRouter 1 True"] t b
  have g: "hc_ret ?r = sizeof_AckPacket
           \<and> a_commandType (ack_of_bytes (take (hc_ret ?r) (hc_ack_buf ?r))) = CMD_ACK"
    unfolding Let_def by blast
  then have e: "hc_ret ?r = 202"
    by (simp add: sizeofs)
  from g [unfolded e]
  have c: "a_commandType (ack_of_bytes (take 202 (hc_ack_buf ?r))) = CMD_ACK"
    by blast
  from t b e c show ?thesis
    by blast
qed

end
